theory Spec2Isabelle
  imports Complex_Main
begin

section \<open>Data model\<close>

text \<open>
  A measurement is a float that may be missing: \<open>None\<close> is numpy's NaN (the loader turns
  the sentinel -999 into NaN), \<open>Some x\<close> a finite reading. Finite readings are taken as
  exact real numbers, so sums and means carry no rounding error; NaN propagation of
  arithmetic and the all-false comparisons with NaN are written out.
\<close>

type_synonym val = "real option"

datatype py_error =
  UnboundLocalError | AttributeError | ValueError | IndexError | FileNotFoundError

definition vadd :: "val \<Rightarrow> val \<Rightarrow> val" where
  "vadd a b = (case a of None \<Rightarrow> None | Some x \<Rightarrow> (case b of None \<Rightarrow> None | Some y \<Rightarrow> Some (x + y)))"

definition vsub :: "val \<Rightarrow> val \<Rightarrow> val" where
  "vsub a b = (case a of None \<Rightarrow> None | Some x \<Rightarrow> (case b of None \<Rightarrow> None | Some y \<Rightarrow> Some (x - y)))"

definition v_lt :: "val \<Rightarrow> real \<Rightarrow> bool" where
  "v_lt a c = (case a of None \<Rightarrow> False | Some x \<Rightarrow> x < c)"

definition v_le :: "val \<Rightarrow> real \<Rightarrow> bool" where
  "v_le a c = (case a of None \<Rightarrow> False | Some x \<Rightarrow> x \<le> c)"

definition v_gt :: "val \<Rightarrow> real \<Rightarrow> bool" where
  "v_gt a c = (case a of None \<Rightarrow> False | Some x \<Rightarrow> c < x)"

definition v_ge :: "val \<Rightarrow> real \<Rightarrow> bool" where
  "v_ge a c = (case a of None \<Rightarrow> False | Some x \<Rightarrow> c \<le> x)"

definition isnan :: "val \<Rightarrow> bool" where
  "isnan a = (a = None)"

text \<open>\<open>np.nanmean\<close>: the mean of the non-missing entries, NaN (with a warning, not an
  exception) when there is none.\<close>

definition nanmean :: "val list \<Rightarrow> val" where
  "nanmean xs =
     (let ys = List.map_filter (\<lambda>v. v) xs
      in if ys = [] then None else Some (sum_list ys / real (length ys)))"

text \<open>One row of the loaded input file (columns Year, DayOfYear,
  DepthPressureTransducer\_Cor(m), Albedo\_theta<70d, AirTemperature(C), HeightSensorBoom(m)).\<close>

record raw_row =
  Year :: int
  DayOfYear :: int
  DepthPressureTransducer_Cor :: val
  Albedo_theta_lt_70d :: val
  AirTemperature :: val
  HeightSensorBoom :: val

text \<open>The variables of \<open>DPT_processing\<close> that the correction branches read and write.
  \<open>DPT_flag\<close> and \<open>IAO\<close> are locals with no initial value: \<open>None\<close> is "not yet bound".\<close>

record locals =
  z :: "val list"
  doy :: "int list"
  DPT_flag :: "int option"
  IAO :: "int option"
  albedo_flag :: int
  no_proc :: int

section \<open>Statements of the correction branches\<close>

text \<open>\<open>z[mask] = ...\<close> and \<open>z[mask] op= ...\<close>: the mask is computed from \<open>doy\<close> and the
  current \<open>z\<close>, then the masked entries are rewritten.\<close>

definition assign_where :: "(int \<Rightarrow> val \<Rightarrow> bool) \<Rightarrow> (val \<Rightarrow> val) \<Rightarrow> locals \<Rightarrow> locals" where
  "assign_where P f s = s\<lparr>z := map (\<lambda>(d, v). if P d v then f v else v) (zip (doy s) (z s))\<rparr>"

definition zset :: "(int \<Rightarrow> val \<Rightarrow> bool) \<Rightarrow> val \<Rightarrow> locals \<Rightarrow> locals" where
  "zset P c = assign_where P (\<lambda>v. c)"

definition zsub_val :: "(int \<Rightarrow> val \<Rightarrow> bool) \<Rightarrow> val \<Rightarrow> locals \<Rightarrow> locals" where
  "zsub_val P c = assign_where P (\<lambda>v. vsub v c)"

definition zsub :: "(int \<Rightarrow> val \<Rightarrow> bool) \<Rightarrow> real \<Rightarrow> locals \<Rightarrow> locals" where
  "zsub P c = zsub_val P (Some c)"

definition zadd :: "(int \<Rightarrow> val \<Rightarrow> bool) \<Rightarrow> real \<Rightarrow> locals \<Rightarrow> locals" where
  "zadd P c = assign_where P (\<lambda>v. vadd v (Some c))"

text \<open>\<open>z[doy > 58] -= z[doy == 59]\<close> subtracts a series from a series: pandas aligns the
  two on the row index, so a row of the left side that is not in the right side gets NaN.\<close>

definition zsub_aligned :: "(int \<Rightarrow> bool) \<Rightarrow> (int \<Rightarrow> bool) \<Rightarrow> locals \<Rightarrow> locals" where
  "zsub_aligned P Q s =
     s\<lparr>z := map (\<lambda>(d, v). if P d then (if Q d then vsub v v else None) else v) (zip (doy s) (z s))\<rparr>"

datatype days = DayInt int | DayList "int list"

fun assign_nans :: "days \<Rightarrow> locals \<Rightarrow> locals" where
  "assign_nans (DayInt d) s = zset (\<lambda>x v. d = x) None s"
| "assign_nans (DayList ds) s = fold (\<lambda>d. zset (\<lambda>x v. d = x) None) ds s"

definition set_DPT_flag :: "int \<Rightarrow> locals \<Rightarrow> locals" where
  "set_DPT_flag n s = s\<lparr>DPT_flag := Some n\<rparr>"

definition set_IAO :: "int \<Rightarrow> locals \<Rightarrow> locals" where
  "set_IAO n s = s\<lparr>IAO := Some n\<rparr>"

definition set_albedo_flag :: "int \<Rightarrow> locals \<Rightarrow> locals" where
  "set_albedo_flag n s = s\<lparr>albedo_flag := n\<rparr>"

definition set_no_proc :: "int \<Rightarrow> locals \<Rightarrow> locals" where
  "set_no_proc n s = s\<lparr>no_proc := n\<rparr>"

text \<open>A branch is its statements in source order, run one after the other.\<close>

fun run :: "(locals \<Rightarrow> locals) list \<Rightarrow> locals \<Rightarrow> locals" where
  "run [] s = s"
| "run (f # fs) s = run fs (f s)"

section \<open>The correction branches, station by station\<close>

definition corr_NUK_U :: "int \<Rightarrow> (locals \<Rightarrow> locals) list" where
  "corr_NUK_U year =
    (if year \<in> set [2007, 2014, 2015] then [set_DPT_flag 1]
     else if year \<in> set [2008, 2009] then [set_DPT_flag 0]
     else if year = 2010 then
       [zsub (\<lambda>d v. d > 203) 2.6, zsub (\<lambda>d v. d > 204) 8.8, zset (\<lambda>d v. d \<ge> 256) None,
        set_DPT_flag 3, set_IAO 121]
     else if year = 2011 then
       [assign_nans (DayInt 235), zsub (\<lambda>d v. d \<ge> 236) 2, zset (\<lambda>d v. d \<ge> 276) None,
        set_DPT_flag 3, set_IAO 156, set_albedo_flag 0]
     else if year = 2012 then
       [zset (\<lambda>d v. d \<ge> 260 \<and> v_ge v (-3)) None, set_DPT_flag 3, set_IAO 148]
     else if year = 2013 then
       [zsub (\<lambda>d v. d > 202) 2, zsub (\<lambda>d v. d > 203) 5.8, set_DPT_flag 3, set_IAO 152]
     else if year = 2016 then
       [zset (\<lambda>d v. d \<ge> 263) None, zset (\<lambda>d v. d \<le> 70 \<and> v_le v (-0.5)) None,
        zset (\<lambda>d v. d > 38 \<and> d < 43) None, assign_nans (DayList [71..75]),
        assign_nans (DayList [32, 92, 93]), set_DPT_flag 3, set_IAO 160]
     else if year = 2017 then
       [zset (\<lambda>d v. d \<ge> 250 \<and> v_ge v (-0.3)) None, set_DPT_flag 3, set_IAO 204]
     else if year = 2018 then
       [zset (\<lambda>d v. d \<le> 103) None, zsub (\<lambda>d v. d \<ge> 212) 8,
        assign_nans (DayList [123, 124, 210, 211]), zsub (\<lambda>d v. d \<ge> 210) 1.25,
        set_DPT_flag 3, set_IAO 161]
     else if year = 2019 then
       [set_DPT_flag 3, set_IAO 128, zset (\<lambda>d v. d < 97) None]
     else [set_no_proc 1])"

definition corr_NUK_L :: "int \<Rightarrow> (locals \<Rightarrow> locals) list" where
  "corr_NUK_L year =
    (if year = 2007 then [set_DPT_flag 1]
     else if year = 2008 then
       [zsub (\<lambda>d v. d > 212) 7.1, zsub (\<lambda>d v. d > 211) 5, assign_nans (DayInt 156),
        set_DPT_flag 3, set_IAO 121]
     else if year = 2009 then
       [assign_nans (DayList [90, 92, 95, 102, 105, 142, 154, 159, 169, 174]),
        zsub (\<lambda>d v. d > 236) 0.5, set_DPT_flag 3, set_IAO 136]
     else if year = 2010 then
       [assign_nans (DayInt 207), zsub (\<lambda>d v. d > 206) 11.1, zset (\<lambda>d v. d > 264) None,
        set_DPT_flag 3, set_IAO 107]
     else if year = 2011 then
       [assign_nans (DayList [210, 238, 239, 240]), zsub (\<lambda>d v. d > 209) 1.15,
        zsub (\<lambda>d v. d \<ge> 237 \<and> d \<le> 239) 0.4, zsub (\<lambda>d v. d \<ge> 241 \<and> d \<le> 242) 0.2,
        zset (\<lambda>d v. d > 280) None, set_DPT_flag 3, set_IAO 156, set_albedo_flag 0]
     else if year = 2012 then
       [assign_nans (DayInt 241), zsub (\<lambda>d v. d > 241) 12, set_DPT_flag 3, set_IAO 150]
     else if year = 2013 then
       [assign_nans (DayList [23, 24, 204]), zadd (\<lambda>d v. d > 24) 2.6,
        zsub (\<lambda>d v. d > 204) 5.25, set_DPT_flag 3, set_IAO 155, set_albedo_flag 0]
     else if year = 2014 then
       [zsub (\<lambda>d v. d > 206) 2.5, zsub (\<lambda>d v. d > 207) 3.35, set_DPT_flag 3, set_IAO 121,
        assign_nans (DayList [54, 55])]
     else if year \<in> set [2015, 2016] then
       [set_DPT_flag 3] @ (if year = 2015 then [set_IAO 159] else [set_IAO 100])
     else if year = 2017 then
       [assign_nans (DayList [117, 118, 219, 220, 233, 234, 235]), zsub (\<lambda>d v. d > 117) 14.92,
        zsub (\<lambda>d v. d \<ge> 142) 0.5, set_DPT_flag 3, set_IAO 142]
     else if year = 2018 then
       [assign_nans (DayList [194, 196, 211]), zsub (\<lambda>d v. d > 59) 14.75,
        zadd (\<lambda>d v. d \<ge> 197 \<and> d \<le> 210) 7.35, zadd (\<lambda>d v. d \<ge> 194 \<and> d \<le> 211) 0.27,
        zset (\<lambda>d v. d \<ge> 50 \<and> d \<le> 70) None, set_DPT_flag 2]
     else if year = 2019 then
       [set_DPT_flag 3, set_IAO 97, set_albedo_flag 0]
     else [set_no_proc 1])"

definition corr_NUK_N :: "int \<Rightarrow> (locals \<Rightarrow> locals) list" where
  "corr_NUK_N year =
    (if year \<in> set [2010, 2013] then [set_DPT_flag 1]
     else if year = 2011 then
       [zset (\<lambda>d v. d \<ge> 280) None, set_DPT_flag 3, set_IAO 164]
     else if year = 2012 then
       [zset (\<lambda>d v. d \<ge> 240) None, set_DPT_flag 3, set_IAO 158,
        zset (\<lambda>d v. d \<ge> 90 \<and> d \<le> 156 \<and> v_lt v 0) None, assign_nans (DayInt 96),
        zsub (\<lambda>d v. d = 168) 0.19, assign_nans (DayList [145..151])]
     else if year = 2014 then [set_DPT_flag 3, set_IAO 165]
     else [set_no_proc 1])"

definition corr_NUK_K :: "int \<Rightarrow> (locals \<Rightarrow> locals) list" where
  "corr_NUK_K year =
    (if year = 2014 then
       [zadd (\<lambda>d v. d \<ge> 225 \<and> d \<le> 238) 1.19, assign_nans (DayInt 239), set_DPT_flag 2]
     else if year = 2015 then [set_DPT_flag 3, set_IAO 200]
     else if year = 2016 then
       [assign_nans (DayList [23, 24, 124]), set_DPT_flag 3, set_IAO 166]
     else if year = 2017 then [set_DPT_flag 3, set_IAO 204]
     else if year \<in> set [2018, 2019] then
       [set_DPT_flag 3, set_IAO 176]
       @ (if year = 2019 then [assign_nans (DayList [94, 127, 128, 129])]
          else if year = 2018 then [assign_nans (DayInt 177), zadd (\<lambda>d v. d > 177) 0.07]
          else [])
     else [set_no_proc 1])"

definition corr_UPE_L :: "int \<Rightarrow> (locals \<Rightarrow> locals) list" where
  "corr_UPE_L year =
    (if year = 2009 then [zset (\<lambda>d v. d \<ge> 120) None, set_DPT_flag 1]
     else if year = 2010 then
       [assign_nans (DayList [271..274]), set_DPT_flag 3, set_IAO 129]
     else if year = 2011 then
       [zset (\<lambda>d v. d \<ge> 262 \<and> d \<le> 311) None, set_DPT_flag 3, set_IAO 157]
     else if year = 2012 then
       [zsub (\<lambda>d v. d > 150) 0.3, zadd (\<lambda>d v. d > 151) 0.2, zadd (\<lambda>d v. d > 152) 0.1,
        zsub (\<lambda>d v. d \<ge> 225) 0.1, zsub (\<lambda>d v. d \<ge> 226) 0.15,
        zset (\<lambda>d v. d \<ge> 258 \<and> d \<le> 308) None, set_DPT_flag 3, set_IAO 148,
        assign_nans (DayList [149, 150, 152, 153])]
     else if year = 2013 then
       [zset (\<lambda>d v. d \<le> 70) None, assign_nans (DayList [74, 214, 215]),
        zset (\<lambda>d v. d \<ge> 73 \<and> d \<le> 75) None, zsub (\<lambda>d v. d \<ge> 214) 15.3,
        set_DPT_flag 3, set_IAO 160]
     else if year = 2014 then
       [zset (\<lambda>d v. d \<ge> 266 \<and> d \<le> 270) None, set_DPT_flag 3, set_IAO 158]
     else if year = 2015 then
       [assign_nans (DayInt 213), zsub (\<lambda>d v. d \<ge> 214) 0.32,
        zset (\<lambda>d v. d \<ge> 253 \<and> d \<le> 261) None, set_DPT_flag 3, set_IAO 151]
     else if year = 2016 then [set_DPT_flag 0]
     else if year = 2017 then [set_DPT_flag 1]
     else if year = 2018 then [set_DPT_flag 3, set_IAO 167]
     else if year = 2019 then
       [set_DPT_flag 3, set_IAO 124, zset (\<lambda>d v. d < 99) None]
     else [set_no_proc 1])"

definition corr_UPE_U :: "int \<Rightarrow> (locals \<Rightarrow> locals) list" where
  "corr_UPE_U year =
    (if year = 2009 then [set_DPT_flag 1]
     else if year \<ge> 2010 \<and> year \<le> 2012 then
       [set_DPT_flag 3]
       @ (if year = 2010 then [set_IAO 143, assign_nans (DayInt 114)]
          else if year = 2011 then [set_IAO 159]
          else if year = 2012 then [set_IAO 153]
          else [])
     else if year \<in> set [2013, 2018] then [set_DPT_flag 2]
     else if year = 2014 then [set_DPT_flag 3, set_IAO 171]
     else if year = 2015 then
       [zsub (\<lambda>d v. d \<ge> 216) 5.48, assign_nans (DayInt 215), set_DPT_flag 2]
     else if year = 2016 then [set_DPT_flag 3, set_IAO 183]
     else if year = 2017 then
       (if year = 2017 then [set_IAO 190, set_DPT_flag 3] else [])
     else if year = 2019 then [set_DPT_flag 3, set_IAO 161]
     else [set_no_proc 1])"

definition corr_KPC_L :: "int \<Rightarrow> (locals \<Rightarrow> locals) list" where
  "corr_KPC_L year =
    (if year \<in> set [2008, 2010, 2012] then [set_DPT_flag 1]
     else if year = 2009 then [set_DPT_flag 0]
     else if year = 2011 then [set_DPT_flag 0]
     else if year = 2013 then [set_DPT_flag 3, set_IAO 163]
     else if year = 2014 then [set_DPT_flag 3, set_IAO 165]
     else if year = 2015 then [set_DPT_flag 3, set_IAO 172]
     else if year = 2016 then
       [zsub (\<lambda>d v. d > 209) 6.297, assign_nans (DayList [210, 211]), set_DPT_flag 3,
        set_IAO 166, zsub (\<lambda>d v. d > 211) 0.1]
     else if year = 2017 then [set_DPT_flag 3, set_IAO 160]
     else if year = 2018 then [set_DPT_flag 2]
     else if year = 2019 then
       [zsub (\<lambda>d v. d > 192) 4.478, assign_nans (DayInt 193), set_DPT_flag 3, set_IAO 163]
     else [set_no_proc 1])"

definition corr_KPC_U :: "int \<Rightarrow> (locals \<Rightarrow> locals) list" where
  "corr_KPC_U year =
    (if year \<ge> 2008 \<and> year \<le> 2019 then [set_DPT_flag 1] else [set_no_proc 1])"

definition corr_KAN_L :: "int \<Rightarrow> (locals \<Rightarrow> locals) list" where
  "corr_KAN_L year =
    (if year = 2008 then [set_DPT_flag 1]
     else if year = 2009 then
       [zset (\<lambda>d v. d \<ge> 250 \<and> v_ge v (-3.2)) None,
        zset (\<lambda>d v. d \<ge> 260 \<and> isnan v) (Some (-3.5)),
        assign_nans (DayInt 276), set_DPT_flag 3, set_IAO 136]
     else if year = 2010 then
       [zset (\<lambda>d v. d \<ge> 260 \<and> v_ge v (-5.1)) None,
        zsub (\<lambda>d v. d \<ge> 280) 0.1,
        zset (\<lambda>d v. d \<ge> 260 \<and> isnan v) (Some (-5.45)),
        assign_nans (DayList [136, 284]), set_DPT_flag 3, set_IAO 121]
     else if year = 2011 then
       [zsub (\<lambda>d v. d > 155) 4, assign_nans (DayInt 155), set_DPT_flag 3, set_IAO 156]
     else if year = 2012 then
       [zsub (\<lambda>d v. d \<ge> 234) 11.56, zset (\<lambda>d v. d \<ge> 282 \<and> d \<le> 298) None,
        assign_nans (DayList [234, 235]), set_DPT_flag 3, set_IAO 149]
     else if year = 2013 then [set_DPT_flag 3, set_IAO 141]
     else if year = 2014 then
       [zset (\<lambda>d v. d \<ge> 290 \<and> d \<le> 319) None, set_DPT_flag 3, set_IAO 146,
        zadd (\<lambda>d v. d > 133) 0.07]
     else if year = 2015 then
       [zsub (\<lambda>d v. d \<ge> 119) 7.08, assign_nans (DayList [118, 278]),
        zsub (\<lambda>d v. d \<ge> 188) 0.29, set_DPT_flag 3, set_IAO 162]
     else if year = 2016 then
       [zsub (\<lambda>d v. d > 198) 1.6, zset (\<lambda>d v. d \<ge> 260 \<and> v_ge v (-4.5)) None,
        zset (\<lambda>d v. d \<ge> 260 \<and> v_le v (-5.5)) None,
        zset (\<lambda>d v. d \<ge> 273 \<and> d \<le> 280) None, assign_nans (DayInt 198),
        set_DPT_flag 3, set_IAO 100]
     else if year = 2017 then
       [zsub (\<lambda>d v. d > 244) 3.6, zsub_aligned (\<lambda>d. d > 58) (\<lambda>d. d = 59),
        assign_nans (DayInt 244), set_DPT_flag 3, set_IAO 123]
     else if year = 2018 then
       [assign_nans (DayInt 240), zsub (\<lambda>d v. d \<ge> 241) 10.65, set_DPT_flag 3, set_IAO 137]
     else if year = 2019 then
       [zsub (\<lambda>d v. d \<ge> 248) 1.3, set_DPT_flag 3, set_IAO 115]
     else [set_no_proc 1])"

definition corr_KAN_M :: "int \<Rightarrow> (locals \<Rightarrow> locals) list" where
  "corr_KAN_M year =
    (if year \<ge> 2008 \<and> year \<le> 2011 then [set_DPT_flag 0]
     else if year = 2012 then [set_DPT_flag 3, set_IAO 169]
     else if year = 2013 then [set_DPT_flag 3, set_IAO 173, assign_nans (DayInt 183)]
     else if year \<in> set [2014, 2015] then [set_DPT_flag 1]
     else if year = 2016 then [set_DPT_flag 3, set_IAO 156]
     else if year = 2017 then
       [zset (\<lambda>d v. d > 100 \<and> d < 135 \<and> v_gt v 0.15) None, set_DPT_flag 3, set_IAO 202]
     else if year = 2018 then [zset (\<lambda>d v. d \<ge> 238) None, set_DPT_flag 2]
     else if year = 2019 then
       [zset (\<lambda>d v. d \<ge> 247) None, set_DPT_flag 3, set_IAO 172]
     else [set_no_proc 1])"

definition corr_QAS_M :: "int \<Rightarrow> (locals \<Rightarrow> locals) list" where
  "corr_QAS_M year =
    (if year = 2016 then [set_DPT_flag 2]
     else if year = 2017 then
       [assign_nans (DayList [141..145]), assign_nans (DayList [151, 152, 187, 188]),
        zset (\<lambda>d v. d \<ge> 196 \<and> d \<le> 236) None, set_DPT_flag 1]
     else if year = 2018 then
       [zsub (\<lambda>d v. d > 242) 5.0, assign_nans (DayList [241..243]), set_DPT_flag 3,
        set_IAO 192, zsub (\<lambda>d v. d \<ge> 244) 0.2]
     else if year = 2019 then
       [zsub (\<lambda>d v. d \<ge> 242) 4.92, set_DPT_flag 3, set_IAO 178]
     else [set_no_proc 1])"

definition corr_QAS_A :: "int \<Rightarrow> (locals \<Rightarrow> locals) list" where
  "corr_QAS_A year =
    (if year \<ge> 2012 \<and> year \<le> 2015 then [set_DPT_flag 0] else [set_no_proc 1])"

definition corr_QAS_L :: "int \<Rightarrow> (locals \<Rightarrow> locals) list" where
  "corr_QAS_L year =
    (if year \<in> set [2007, 2009, 2013] then [set_DPT_flag 1]
     else if year = 2008 then
       [zsub (\<lambda>d v. d \<ge> 219) 7, zadd (\<lambda>d v. d \<ge> 277) 5.1,
        assign_nans (DayList [77, 78, 92, 103, 110, 220, 277]),
        zsub (\<lambda>d v. d \<ge> 220) 1.9, set_DPT_flag 3, set_IAO 121]
     else if year = 2010 then
       [zset (\<lambda>d v. d \<ge> 127 \<and> d \<le> 128) None, assign_nans (DayInt 147),
        zsub (\<lambda>d v. d \<ge> 129 \<and> d \<le> 146 \<and> d \<le> 148) 3.5,
        zset (\<lambda>d v. d \<ge> 144 \<and> d \<le> 150) None, zsub (\<lambda>d v. d \<ge> 129) 1.3,
        set_DPT_flag 2, set_IAO 129]
     else if year = 2011 then
       [zset (\<lambda>d v. d \<ge> 222) None, set_DPT_flag 3, set_IAO 155]
     else if year = 2012 then
       [assign_nans (DayList [133, 134]), zsub (\<lambda>d v. d > 132) 0.55,
        zsub (\<lambda>d v. d > 230) 0.8, set_DPT_flag 3, set_IAO 151]
     else if year = 2014 then
       [assign_nans (DayList [125, 235]), zsub (\<lambda>d v. d > 124) 1.48,
        zsub (\<lambda>d v. d \<ge> 236) 7.9, zsub (\<lambda>d v. d > 159) 0.08, set_DPT_flag 3, set_IAO 149]
     else if year = 2015 then [set_DPT_flag 3, set_IAO 171]
     else if year = 2016 then
       [assign_nans (DayInt 224), zsub (\<lambda>d v. d \<ge> 225) 13.3, set_DPT_flag 3, set_IAO 133]
     else if year = 2017 then
       [set_DPT_flag 3, set_IAO 152, zsub (\<lambda>d v. d \<ge> 152) 0.05]
     else if year = 2018 then
       [assign_nans (DayList [123, 238]), zsub (\<lambda>d v. d > 122) 1, zsub (\<lambda>d v. d > 132) 0.9,
        zadd (\<lambda>d v. d > 130) 0.2, zsub (\<lambda>d v. d > 126) 0.2, zsub (\<lambda>d v. d \<ge> 239) 8.2,
        set_DPT_flag 3, set_IAO 155, assign_nans (DayList [123..132]),
        assign_nans (DayList [133..136])]
     else if year = 2019 then
       [zset (\<lambda>d v. d > 142) None, zsub (\<lambda>d v. d \<ge> 177) 1, zsub (\<lambda>d v. d \<ge> 140) 0.4,
        set_DPT_flag 1]
     else [set_no_proc 1])"

definition corr_QAS_U :: "int \<Rightarrow> (locals \<Rightarrow> locals) list" where
  "corr_QAS_U year =
    (if year \<in> set [2008, 2009, 2013] then [set_DPT_flag 1]
     else if year = 2010 then [set_DPT_flag 3, set_IAO 175]
     else if year \<in> set [2011, 2015, 2018] then [set_DPT_flag 2]
     else if year = 2012 then [set_DPT_flag 3, set_IAO 196, set_albedo_flag 0]
     else if year = 2014 then [set_DPT_flag 3, set_IAO 206]
     else if year = 2016 then
       [zset (\<lambda>d v. d > 224) None, set_DPT_flag 3, set_IAO 202]
     else if year = 2017 then
       [zset (\<lambda>d v. d \<le> 143) None, set_DPT_flag 3, set_IAO 220]
     else if year = 2019 then
       [zsub (\<lambda>d v. d \<ge> 243) 2.24, zset (\<lambda>d v. d \<ge> 241 \<and> d \<le> 242) None,
        zset (\<lambda>d v. d \<le> 100) None, set_DPT_flag 3, set_IAO 200]
     else [set_no_proc 1])"

definition corr_THU_L :: "int \<Rightarrow> (locals \<Rightarrow> locals) list" where
  "corr_THU_L year =
    (if year \<in> set [2010, 2011, 2012, 2013, 2018] then [set_DPT_flag 1]
     else if year = 2014 then
       [zset (\<lambda>d v. d > 255) None, set_DPT_flag 3, set_IAO 177]
     else if year = 2015 then
       [zadd (\<lambda>d v. d \<ge> 20) 0.1, zsub (\<lambda>d v. d \<ge> 182) 0.3, zsub (\<lambda>d v. d \<ge> 260) 0.2,
        zset (\<lambda>d v. d > 250) None, set_DPT_flag 3, set_IAO 163]
     else if year = 2016 then
       [zsub (\<lambda>d v. d \<ge> 204) 0.2, set_DPT_flag 3, set_IAO 180]
     else if year = 2017 then [set_DPT_flag 3, set_IAO 194]
     else if year = 2019 then
       [zset (\<lambda>d v. d > 43 \<and> d < 59) None, zset (\<lambda>d v. d < 100 \<and> v_lt v (-0.2)) None,
        set_DPT_flag 3, set_IAO 161, set_albedo_flag 0]
     else [set_no_proc 1])"

definition corr_THU_U :: "int \<Rightarrow> (locals \<Rightarrow> locals) list" where
  "corr_THU_U year =
    (if year \<in> set [2010, 2018] then [set_DPT_flag 1]
     else if year \<in> set [2011, 2013, 2015, 2019] then [set_DPT_flag 2]
     else if year = 2012 then [set_DPT_flag 3, set_IAO 191]
     else if year = 2014 then
       [zadd (\<lambda>d v. d \<ge> 258) 0.85, assign_nans (DayInt 258), set_DPT_flag 2]
     else if year = 2016 then
       [zadd (\<lambda>d v. d \<ge> 204) 2.5, assign_nans (DayInt 203),
        zset (\<lambda>d v. v_lt v (-0.5)) None, set_DPT_flag 2]
     else if year = 2017 then
       [zset (\<lambda>d v. v_lt v (-0.06)) None, set_DPT_flag 1]
     else [set_no_proc 1])"

text \<open>The THU\_U2 branch has no final \<open>else\<close>: for any other year it runs no statement.\<close>

definition corr_THU_U2 :: "int \<Rightarrow> (locals \<Rightarrow> locals) list" where
  "corr_THU_U2 year =
    (if year = 2018 then [assign_nans (DayInt 216), set_DPT_flag 2]
     else if year = 2019 then [set_DPT_flag 1]
     else [])"

definition corr_SCO_L :: "int \<Rightarrow> (locals \<Rightarrow> locals) list" where
  "corr_SCO_L year =
    (if year = 2008 then [set_DPT_flag 2]
     else if year \<ge> 2009 \<and> year \<le> 2013 then
       [set_DPT_flag 3]
       @ (if year = 2009 then [set_IAO 143]
          else if year = 2010 then [set_IAO 144, set_albedo_flag 0]
          else if year = 2011 then [set_IAO 158]
          else if year = 2012 then [set_IAO 150]
          else if year = 2013 then [set_IAO 151]
          else [])
     else if year = 2014 then
       [zsub (\<lambda>d v. d \<ge> 222) 14.79, assign_nans (DayInt 221), set_DPT_flag 2]
     else if year \<in> set [2015, 2016] then
       (if year = 2015 then [set_DPT_flag 1]
        else [assign_nans (DayList [115..119]), set_DPT_flag 3, set_IAO 158])
     else if year = 2017 then
       [assign_nans (DayList [110..115]), zsub (\<lambda>d v. d \<ge> 219) 9.88,
        assign_nans (DayInt 218), set_DPT_flag 3, set_IAO 146]
     else if year = 2018 then [set_DPT_flag 3, set_IAO 148]
     else if year = 2019 then [set_DPT_flag 1]
     else [set_no_proc 1])"

definition corr_SCO_U :: "int \<Rightarrow> (locals \<Rightarrow> locals) list" where
  "corr_SCO_U year =
    (if year \<in> set [2008, 2018] then [set_DPT_flag 2]
     else if year = 2009 then
       [zset (\<lambda>d v. d \<ge> 316) None, set_DPT_flag 3, set_IAO 184, set_albedo_flag 0]
     else if year = 2010 then [set_DPT_flag 1]
     else if year = 2011 then [set_DPT_flag 3, set_IAO 161]
     else if year = 2012 then
       [zsub (\<lambda>d v. d \<ge> 242) 1.47, assign_nans (DayInt 241), set_DPT_flag 3, set_IAO 150]
     else if year \<in> set [2013, 2014] then
       [set_DPT_flag 3]
       @ (if year = 2013 then [zset (\<lambda>d v. d > 22 \<and> d < 26) None, set_IAO 155]
          else [set_IAO 162])
     else if year = 2015 then
       [assign_nans (DayList [101, 102, 103, 113]), set_DPT_flag 3, set_IAO 170]
     else if year = 2016 then
       [assign_nans (DayList [47, 60, 61]), set_DPT_flag 3, set_IAO 160]
     else if year = 2017 then
       [zsub (\<lambda>d v. d \<ge> 217) 12.08, assign_nans (DayInt 216), set_DPT_flag 3, set_IAO 153,
        zset (\<lambda>d v. d > 49 \<and> d < 54) None, assign_nans (DayList [82..92])]
     else if year = 2019 then [set_DPT_flag 3, set_IAO 160]
     else [set_no_proc 1])"

definition corr_TAS_A :: "int \<Rightarrow> (locals \<Rightarrow> locals) list" where
  "corr_TAS_A year =
    (if year \<in> set [2013, 2015, 2018] then [set_DPT_flag 1]
     else if year = 2014 then
       [zset (\<lambda>d v. d > 41 \<and> d < 75) None, set_DPT_flag 3, set_IAO 188]
     else if year = 2016 then [set_DPT_flag 3, set_IAO 176]
     else if year = 2017 then [set_DPT_flag 3, set_IAO 210]
     else if year = 2019 then [set_DPT_flag 3, set_IAO 195, set_albedo_flag 0]
     else [set_no_proc 1])"

definition corr_TAS_L :: "int \<Rightarrow> (locals \<Rightarrow> locals) list" where
  "corr_TAS_L year =
    (if year \<in> set [2007..2009] then [set_DPT_flag 0]
     else if year \<in> set [2010, 2011, 2014, 2015, 2016] then [set_DPT_flag 1]
     else if year = 2012 then
       [zsub (\<lambda>d v. d \<ge> 252) 2.86, assign_nans (DayInt 251), zset (\<lambda>d v. d \<le> 83) None,
        set_DPT_flag 3, set_IAO 153]
     else if year = 2013 then
       [zsub_val (\<lambda>d v. d \<ge> 235) None, set_DPT_flag 2, set_IAO 140]
     else if year = 2017 then
       [zsub (\<lambda>d v. d \<ge> 209) 10.36, assign_nans (DayList [207, 208]), set_DPT_flag 2]
     else if year = 2018 then
       [zadd (\<lambda>d v. d \<ge> 272) 1.29, assign_nans (DayInt 271), set_DPT_flag 3, set_IAO 156]
     else if year = 2019 then
       [zsub (\<lambda>d v. d \<ge> 121) 1.135, set_DPT_flag 3, set_IAO 143, set_albedo_flag 0]
     else [set_no_proc 1])"

definition corr_TAS_U :: "int \<Rightarrow> (locals \<Rightarrow> locals) list" where
  "corr_TAS_U year =
    (if year = 2008 then [set_DPT_flag 3, set_IAO 167, assign_nans (DayInt 143)]
     else if year \<in> set [2009, 2012] then [set_DPT_flag 1]
     else if year = 2010 then
       [zsub (\<lambda>d v. d \<ge> 219) 8.07, assign_nans (DayInt 218), set_DPT_flag 2]
     else if year = 2011 then
       [zsub (\<lambda>d v. d \<ge> 203) 1.558, assign_nans (DayList [202, 222]), set_DPT_flag 3,
        set_IAO 161, set_albedo_flag 0]
     else if year = 2013 then [set_DPT_flag 3, set_IAO 167]
     else if year = 2014 then
       [zsub (\<lambda>d v. d \<ge> 216) 1.29, assign_nans (DayList [138, 215]), set_DPT_flag 3,
        set_IAO 136, zadd (\<lambda>d v. d \<ge> 138) 1.27, assign_nans (DayInt 137)]
     else if year = 2015 then [set_DPT_flag 2]
     else [set_no_proc 1])"

definition corr_MIT :: "int \<Rightarrow> (locals \<Rightarrow> locals) list" where
  "corr_MIT year =
    (if year = 2009 then
       [zsub (\<lambda>d v. d \<ge> 224) 6.6, assign_nans (DayList [124, 223]), set_DPT_flag 3,
        set_IAO 222, set_albedo_flag 0]
     else if year = 2010 then [set_DPT_flag 3, set_IAO 190]
     else if year = 2011 then
       [assign_nans (DayInt 224), set_DPT_flag 3, set_IAO 203, zsub (\<lambda>d v. d > 223) 0.08]
     else if year = 2012 then
       [zsub (\<lambda>d v. d \<ge> 250) 13.70, assign_nans (DayInt 249), set_DPT_flag 2]
     else if year \<in> set [2013, 2015, 2016] then [set_DPT_flag 1]
     else if year = 2014 then [set_DPT_flag 3, set_IAO 188]
     else if year = 2017 then
       [assign_nans (DayInt 207), set_DPT_flag 3, set_IAO 208, set_albedo_flag 0]
     else if year = 2018 then [set_DPT_flag 2]
     else if year = 2019 then
       [zadd (\<lambda>d v. d < 12) 4.4, set_DPT_flag 3, set_IAO 186, set_albedo_flag 0]
     else [set_no_proc 1])"

text \<open>The outer \<open>if site == ... elif ...\<close> chain. The accumulation-area stations get flag 0;
  a site that matches no branch runs no statement at all.\<close>

definition correction :: "string \<Rightarrow> int \<Rightarrow> (locals \<Rightarrow> locals) list" where
  "correction site year =
    (if site = ''NUK_U'' then corr_NUK_U year
     else if site = ''NUK_L'' then corr_NUK_L year
     else if site = ''NUK_N'' then corr_NUK_N year
     else if site = ''NUK_K'' then corr_NUK_K year
     else if site = ''UPE_L'' then corr_UPE_L year
     else if site = ''UPE_U'' then corr_UPE_U year
     else if site = ''KPC_L'' then corr_KPC_L year
     else if site = ''KPC_U'' then corr_KPC_U year
     else if site = ''KAN_L'' then corr_KAN_L year
     else if site = ''KAN_M'' then corr_KAN_M year
     else if site = ''QAS_M'' then corr_QAS_M year
     else if site = ''QAS_A'' then corr_QAS_A year
     else if site = ''QAS_L'' then corr_QAS_L year
     else if site = ''QAS_U'' then corr_QAS_U year
     else if site = ''THU_L'' then corr_THU_L year
     else if site = ''THU_U'' then corr_THU_U year
     else if site = ''THU_U2'' then corr_THU_U2 year
     else if site = ''SCO_L'' then corr_SCO_L year
     else if site = ''SCO_U'' then corr_SCO_U year
     else if site = ''TAS_A'' then corr_TAS_A year
     else if site = ''TAS_L'' then corr_TAS_L year
     else if site = ''TAS_U'' then corr_TAS_U year
     else if site = ''MIT'' then corr_MIT year
     else if site = ''EGP'' \<or> site = ''CEN'' \<or> site = ''KAN_U'' then [set_DPT_flag 0]
     else [])"

section \<open>DPT\_processing\<close>

definition init_locals :: "raw_row list \<Rightarrow> locals" where
  "init_locals df =
     \<lparr>z = map DepthPressureTransducer_Cor df, doy = map DayOfYear df,
      DPT_flag = None, IAO = None, albedo_flag = 1, no_proc = 0\<rparr>"

text \<open>The state after the site/year branches and the \<open>no_proc\<close> check that follows them.\<close>

definition table_state :: "string \<Rightarrow> raw_row list \<Rightarrow> int \<Rightarrow> locals" where
  "table_state site df year =
     (let s = run (correction site year) (init_locals df)
      in if no_proc s = 1 then s\<lparr>DPT_flag := Some 0\<rparr> else s)"

text \<open>From \<open>if DPT_flag != 3: IAO = np.nan\<close> on, \<open>IAO\<close> is a day or NaN (\<open>None\<close>);
  every comparison of a day with NaN is false.\<close>

definition doy_lt :: "int \<Rightarrow> int option \<Rightarrow> bool" where
  "doy_lt d iao = (case iao of None \<Rightarrow> False | Some i \<Rightarrow> d < i)"

definition doy_gt :: "int \<Rightarrow> int option \<Rightarrow> bool" where
  "doy_gt d iao = (case iao of None \<Rightarrow> False | Some i \<Rightarrow> d > i)"

definition doy_gt_minus45 :: "int \<Rightarrow> int option \<Rightarrow> bool" where
  "doy_gt_minus45 d iao = (case iao of None \<Rightarrow> False | Some i \<Rightarrow> d > i - 45)"

text \<open>\<open>z[(doy < IAO) & (doy > IAO - 45)]\<close>\<close>

definition premelt_window :: "int list \<Rightarrow> val list \<Rightarrow> int option \<Rightarrow> val list" where
  "premelt_window ds zs iao =
     map snd (filter (\<lambda>(d, v). doy_lt d iao \<and> doy_gt_minus45 d iao) (zip ds zs))"

text \<open>\<open>z -= np.nanmean(z[(doy < IAO) & (doy > IAO - 45)])\<close>\<close>

definition baseline :: "int list \<Rightarrow> val list \<Rightarrow> int option \<Rightarrow> val list" where
  "baseline ds zs iao = map (\<lambda>v. vsub v (nanmean (premelt_window ds zs iao))) zs"

text \<open>The body of the \<open>try\<close>: \<open>indx = np.where(z[doy > IAO] < -0.06)[0][0]\<close>, then
  \<open>BID = doy[doy > IAO].iloc[indx]\<close>. \<open>None\<close> is the IndexError that the \<open>except\<close> catches.\<close>

definition find_BID :: "int list \<Rightarrow> val list \<Rightarrow> int option \<Rightarrow> int option" where
  "find_BID ds zs iao =
     (let z_after = map snd (filter (\<lambda>(d, v). doy_gt d iao) (zip ds zs));
          doy_after = filter (\<lambda>d. doy_gt d iao) ds;
          hits = filter (\<lambda>k. v_lt (z_after ! k) (-0.06)) [0..<length z_after]
      in case hits of
           [] \<Rightarrow> None
         | indx # rest \<Rightarrow> (if indx < length doy_after then Some (doy_after ! indx) else None))"

text \<open>\<open>albedo += 0.034\<close>, then the series is blanked when the branch cleared \<open>albedo_flag\<close>.\<close>

definition albedo_series :: "raw_row list \<Rightarrow> int \<Rightarrow> val list" where
  "albedo_series df aflag =
     (let albedo = map (\<lambda>r. vadd (Albedo_theta_lt_70d r) (Some 0.034)) df
      in if aflag = 0 then map (\<lambda>a. None) albedo else albedo)"

text \<open>\<open>if np.sum(np.isnan(albedo)) == len(albedo): albedo_flag = 0\<close>\<close>

definition albedo_flag_after :: "val list \<Rightarrow> int \<Rightarrow> int" where
  "albedo_flag_after albedo aflag =
     (if length (filter isnan albedo) = length albedo then 0 else aflag)"

text \<open>The function returns \<open>(z, albedo, DPT_flag, BID, albedo_flag)\<close>. Reading \<open>DPT_flag\<close>
  or \<open>IAO\<close> while it is unbound raises UnboundLocalError.\<close>

definition DPT_processing ::
  "string \<Rightarrow> raw_row list \<Rightarrow> int \<Rightarrow> py_error + (val list \<times> val list \<times> int \<times> int option \<times> int)" where
  "DPT_processing site df year =
     (let s = table_state site df year
      in case DPT_flag s of
           None \<Rightarrow> Inl UnboundLocalError
         | Some flag \<Rightarrow>
            (case (if flag \<noteq> 3 then Some None else map_option Some (IAO s)) of
               None \<Rightarrow> Inl UnboundLocalError
             | Some iao \<Rightarrow>
                (let albedo = albedo_series df (albedo_flag s);
                     aflag = albedo_flag_after albedo (albedo_flag s);
                     zb = baseline (doy s) (z s) iao
                 in if flag = 3 \<and> aflag = 1 then
                      (case find_BID (doy s) zb iao of
                         Some b \<Rightarrow> Inr (zb, albedo, flag, Some b, aflag)
                       | None \<Rightarrow> Inr (zb, albedo, flag, None, 0))
                    else Inr (zb, albedo, flag, None, aflag))))"

section \<open>BIC\_processing\<close>

text \<open>One row of the processed table. Appending the later years' frames to the first
  year's frame gives the union of the columns, each frame holding NaN in the column it
  does not have.\<close>

record proc_row =
  p_DPT_proc :: val
  p_DPT_flag :: int
  p_BID :: "int option"
  p_DOY :: int
  p_Year :: int
  p_Air_temperature_C :: val
  p_Albedo_theta_inf_70d :: val
  p_Albedo_flag :: int
  p_HeightSensorBoom_m :: val
  p_Height_sensor_boom_m :: val

text \<open>The table records whether the column \<open>Height_sensor_boom_m\<close> exists: it does once a
  frame of a later year has been appended.\<close>

record proc_table =
  rows :: "proc_row list"
  has_Height_sensor_boom_m :: bool

text \<open>The \<open>pd.DataFrame({...})\<close> of one year: \<open>first\<close> tells the \<open>i == 0\<close> frame, which names
  the boom height \<open>HeightSensorBoom_m\<close>, from the others, which name it
  \<open>Height_sensor_boom_m\<close>.\<close>

definition year_frame ::
  "bool \<Rightarrow> raw_row list \<Rightarrow> (val list \<times> val list \<times> int \<times> int option \<times> int) \<Rightarrow> proc_row list" where
  "year_frame first df_y res =
     (case res of (DPT_proc, albedo, flag, BID, aflag) \<Rightarrow>
        map (\<lambda>(r, zv, a).
               \<lparr>p_DPT_proc = zv, p_DPT_flag = flag, p_BID = BID, p_DOY = DayOfYear r,
                p_Year = Year r, p_Air_temperature_C = AirTemperature r,
                p_Albedo_theta_inf_70d = a, p_Albedo_flag = aflag,
                p_HeightSensorBoom_m = (if first then HeightSensorBoom r else None),
                p_Height_sensor_boom_m = (if first then None else HeightSensorBoom r)\<rparr>)
            (zip df_y (zip DPT_proc albedo)))"

text \<open>The loop \<open>for i, y in enumerate(years)\<close>; the accumulator is \<open>promice_data_proc\<close>,
  unbound (\<open>None\<close>) before the first iteration.\<close>

fun process_years ::
  "string \<Rightarrow> raw_row list \<Rightarrow> nat \<Rightarrow> int list \<Rightarrow> proc_table option \<Rightarrow> py_error + proc_table option" where
  "process_years site promice_data i [] acc = Inr acc"
| "process_years site promice_data i (y # ys) acc =
     (let df_y = filter (\<lambda>r. Year r = y) promice_data
      in case DPT_processing site df_y y of
           Inl e \<Rightarrow> Inl e
         | Inr res \<Rightarrow>
            (if i = 0 then
               process_years site promice_data (Suc i) ys
                 (Some \<lparr>rows = year_frame True df_y res, has_Height_sensor_boom_m = False\<rparr>)
             else
               (case acc of
                  None \<Rightarrow> Inl UnboundLocalError
                | Some t \<Rightarrow>
                   process_years site promice_data (Suc i) ys
                     (Some \<lparr>rows = rows t @ year_frame False df_y res,
                            has_Height_sensor_boom_m = True\<rparr>))))"

text \<open>\<open>list(Counter(xs))\<close>: the distinct elements in order of first occurrence.\<close>

fun Counter_keys :: "'a list \<Rightarrow> 'a list" where
  "Counter_keys [] = []"
| "Counter_keys (x # xs) = x # Counter_keys (filter (\<lambda>y. y \<noteq> x) xs)"

text \<open>The global \<open>yr\<close> that \<open>load_data\<close> leaves behind: \<open>"all"\<close>, a list of years or one year.\<close>

datatype year_arg = All | YearList "int list" | YearInt int

text \<open>The rest of the single-year branch, from the call of \<open>DPT_processing\<close> with
  \<open>year=int(y)\<close> on; \<open>doy\<close> is the global that call leaves behind.\<close>

definition single_year :: "string \<Rightarrow> raw_row list \<Rightarrow> int \<Rightarrow> py_error + proc_table" where
  "single_year site df_y y =
     (case DPT_processing site df_y y of
        Inl e \<Rightarrow> Inl e
      | Inr res \<Rightarrow>
         (let blank = (\<lambda>days. map (\<lambda>r. if DayOfYear r \<in> set days
                                        then r\<lparr>HeightSensorBoom := None\<rparr> else r) df_y);
              df_h = (if y = 2015 \<and> site = ''THU_L'' then blank [184]
                      else if y = 2012 \<and> site = ''THU_U'' then blank [172, 211]
                      else df_y)
          in Inr \<lparr>rows = year_frame True df_h res, has_Height_sensor_boom_m = False\<rparr>))"

text \<open>\<open>y\<close> is a local of \<open>BIC_processing\<close> that only the \<open>for\<close> loop of the first branch
  binds; the \<open>else\<close> branch reads it in \<open>int(y)\<close> with no assignment before.\<close>

definition BIC_processing :: "string \<Rightarrow> year_arg \<Rightarrow> raw_row list \<Rightarrow> py_error + proc_table" where
  "BIC_processing site yr promice_data =
     (if yr = All \<or> (case yr of YearList l \<Rightarrow> True | _ \<Rightarrow> False) then
        (let years = (case yr of YearList l \<Rightarrow> l | _ \<Rightarrow> Counter_keys (map Year promice_data))
         in case process_years site promice_data 0 years None of
              Inl e \<Rightarrow> Inl e
            | Inr None \<Rightarrow> Inl UnboundLocalError
            | Inr (Some t) \<Rightarrow> Inr t)
      else
        (let y = (None :: int option)
         in case y of
              None \<Rightarrow> Inl UnboundLocalError
            | Some y' \<Rightarrow> single_year site promice_data y'))"

section \<open>BIC\_composite\<close>

text \<open>The result: one data frame per variable, all with the row index \<open>stations\<close>
  (the label \<open>"{station}_{year}"\<close>, kept as the pair) and the column labels
  \<open>np.arange(-dt, time_span - dt)\<close>.\<close>

record composite =
  row_index :: "(string \<times> int) list"
  column_labels :: "int list"
  air_temperature_degrees :: "val list list"
  ice_ablation_meters :: "val list list"
  snow_height_meters :: "val list list"
  albedo_unitless :: "val list list"

text \<open>What one qualifying station-year stacks on the four matrices.\<close>

record station_year =
  label :: "string \<times> int"
  air_row :: "val list"
  ice_row :: "val list"
  snow_row :: "val list"
  albedo_row :: "val list"

text \<open>\<open>load_data(file, year="all")\<close> on a file whose rows have been read (-999 already
  NaN): no year is filtered out, and an empty table is reported and returned as \<open>None\<close>.\<close>

definition load_data_all :: "raw_row list \<Rightarrow> raw_row list option" where
  "load_data_all promice_data = (if promice_data = [] then None else Some promice_data)"

text \<open>A column of the window \<open>df_yr_comp\<close> after the NaN rows have been appended.\<close>

definition padded :: "nat \<Rightarrow> proc_row list \<Rightarrow> (proc_row \<Rightarrow> val) \<Rightarrow> val list" where
  "padded time_span df_yr_comp col =
     map col df_yr_comp @ replicate (time_span - length df_yr_comp) None"

text \<open>\<open>mean_boom_height - df_yr_comp.Height_sensor_boom_m\<close>, the mean taken over the
  positional slice \<open>[dt + 10 : dt + 30]\<close>.\<close>

definition boom_height :: "nat \<Rightarrow> val list \<Rightarrow> val list" where
  "boom_height dt h =
     (let mean_boom_height = nanmean (take 20 (drop (dt + 10) h))
      in map (\<lambda>v. vsub mean_boom_height v) h)"

text \<open>The body of \<open>for year in years\<close>. \<open>Inr None\<close>: the station-year does not qualify.
  \<open>int(NaN)\<close> and a negative number of rows to append raise ValueError, a missing column
  AttributeError.\<close>

definition year_step :: "nat \<Rightarrow> string \<Rightarrow> proc_table \<Rightarrow> int \<Rightarrow> py_error + station_year option" where
  "year_step dt s df_corr year =
     (let df_yr = filter (\<lambda>r. p_Year r = year) (rows df_corr);
          time_span = 2 * dt + 1
      in case df_yr of
           [] \<Rightarrow> Inl IndexError
         | r0 # rest \<Rightarrow>
            (if p_DPT_flag r0 = 3 \<and> p_Albedo_flag r0 = 1 then
               (case p_BID r0 of
                  None \<Rightarrow> Inl ValueError
                | Some BID \<Rightarrow>
                   (let df_yr_comp = filter (\<lambda>r. p_DOY r \<ge> BID - int dt \<and> p_DOY r \<le> BID + int dt) df_yr
                    in if length df_yr_comp > time_span then Inl ValueError
                       else if \<not> has_Height_sensor_boom_m df_corr then Inl AttributeError
                       else Inr (Some
                              \<lparr>label = (s, year),
                               air_row = padded time_span df_yr_comp p_Air_temperature_C,
                               ice_row = padded time_span df_yr_comp p_DPT_proc,
                               snow_row = boom_height dt (padded time_span df_yr_comp p_Height_sensor_boom_m),
                               albedo_row = padded time_span df_yr_comp p_Albedo_theta_inf_70d\<rparr>)))
             else Inr None))"

fun year_loop :: "nat \<Rightarrow> string \<Rightarrow> proc_table \<Rightarrow> int list \<Rightarrow> py_error + station_year list" where
  "year_loop dt s df_corr [] = Inr []"
| "year_loop dt s df_corr (year # years) =
     (case year_step dt s df_corr year of
        Inl e \<Rightarrow> Inl e
      | Inr e \<Rightarrow>
         (case year_loop dt s df_corr years of
            Inl e' \<Rightarrow> Inl e'
          | Inr es \<Rightarrow> Inr ((case e of None \<Rightarrow> [] | Some sy \<Rightarrow> [sy]) @ es)))"

text \<open>The body of \<open>for s in sites\<close> for a station that is not skipped. \<open>files\<close> maps a
  site name to the rows of its file; \<open>BIC_processing\<close> applied to the \<open>None\<close> of an empty
  file fails on \<open>promice_data.Year\<close>.\<close>

definition site_step :: "nat \<Rightarrow> (string \<times> raw_row list) list \<Rightarrow> string \<Rightarrow> py_error + station_year list" where
  "site_step dt files s =
     (case map_of files s of
        None \<Rightarrow> Inl FileNotFoundError
      | Some file_rows \<Rightarrow>
         (case load_data_all file_rows of
            None \<Rightarrow> Inl AttributeError
          | Some df \<Rightarrow>
             (case BIC_processing s All df of
                Inl e \<Rightarrow> Inl e
              | Inr df_corr \<Rightarrow>
                 year_loop dt s df_corr (Counter_keys (map p_Year (rows df_corr))))))"

fun site_loop :: "nat \<Rightarrow> (string \<times> raw_row list) list \<Rightarrow> string list \<Rightarrow> py_error + station_year list" where
  "site_loop dt files [] = Inr []"
| "site_loop dt files (s # sites) =
     (if s = ''CEN'' \<or> s = ''EGP'' \<or> s = ''KAN_U'' then site_loop dt files sites
      else
        (case site_step dt files s of
           Inl e \<Rightarrow> Inl e
         | Inr es \<Rightarrow>
            (case site_loop dt files sites of
               Inl e' \<Rightarrow> Inl e'
             | Inr es' \<Rightarrow> Inr (es @ es'))))"

text \<open>The matrices start as one row of zeros that \<open>composite[var][1:, :]\<close> drops at the
  end; when no station-year was stacked the array is still one-dimensional and that
  indexing raises IndexError.\<close>

definition BIC_composite :: "(string \<times> raw_row list) list \<Rightarrow> nat \<Rightarrow> py_error + composite" where
  "BIC_composite files dt =
     (case site_loop dt files (Counter_keys (map fst files)) of
        Inl e \<Rightarrow> Inl e
      | Inr es \<Rightarrow>
         (if es = [] then Inl IndexError
          else Inr \<lparr>row_index = map label es,
                    column_labels = [- int dt .. int dt],
                    air_temperature_degrees = map air_row es,
                    ice_ablation_meters = map ice_row es,
                    snow_height_meters = map snow_row es,
                    albedo_unitless = map albedo_row es\<rparr>))"

section \<open>Definitions used to state the properties\<close>

text \<open>A statement keeps the shape of the series: it leaves \<open>doy\<close> alone and keeps \<open>z\<close> as
  long as \<open>doy\<close>.\<close>

definition shape_ok :: "(locals \<Rightarrow> locals) \<Rightarrow> bool" where
  "shape_ok f = (\<forall>s. doy (f s) = doy s \<and>
                    (length (z s) = length (doy s) \<longrightarrow> length (z (f s)) = length (doy s)))"

text \<open>The onset day as the specification words it: the day of the first sample, in series
  order, strictly after day \<open>i\<close> whose depth is below -0.06 m; \<open>None\<close> when there is none.\<close>

definition first_below :: "int list \<Rightarrow> val list \<Rightarrow> int \<Rightarrow> int option" where
  "first_below ds zs i =
     map_option fst (List.find (\<lambda>(d, v). d > i \<and> v_lt v (-0.06)) (zip ds zs))"

text \<open>A statement reads the current series: it leaves \<open>doy\<close> alone, and the value it
  gives a sample is a function \<open>h\<close> of the sample's day and of the value the sample has
  in the state the statement receives.\<close>

definition reads_current_series :: "(locals \<Rightarrow> locals) \<Rightarrow> bool" where
  "reads_current_series f =
     (\<exists>h. \<forall>s. doy (f s) = doy s \<and>
            (length (z s) = length (doy s) \<longrightarrow>
               z (f s) = map (\<lambda>(d, v). h d v) (zip (doy s) (z s))))"

text \<open>What the table \<open>t\<close> holds once the years \<open>D\<close> have been processed, \<open>y0\<close> being
  the first of them: rows of these years only, the rows of each year being exactly the
  frame built from that year's \<open>DPT_processing\<close> result (the \<open>i == 0\<close> frame for \<open>y0\<close>), and
  the column \<open>Height_sensor_boom_m\<close> present once a second year has been appended.\<close>

definition frames_inv :: "string \<Rightarrow> raw_row list \<Rightarrow> int \<Rightarrow> int list \<Rightarrow> proc_table \<Rightarrow> bool" where
  "frames_inv s df y0 D t =
     ((\<forall>r\<in>set (rows t). p_Year r \<in> set D) \<and>
      (\<forall>y\<in>set D. \<exists>res. DPT_processing s (filter (\<lambda>r. Year r = y) df) y = Inr res \<and>
           filter (\<lambda>r. p_Year r = y) (rows t)
             = year_frame (y = y0) (filter (\<lambda>r. Year r = y) df) res) \<and>
      has_Height_sensor_boom_m t = (1 < length D))"

section \<open>Shape of the series through the correction branches\<close>

lemma shape_ok_assign_where [simp]: "shape_ok (assign_where P f)"
  by (simp add: shape_ok_def assign_where_def)

lemma shape_ok_zset [simp]: "shape_ok (zset P c)"
  by (simp add: zset_def)

lemma shape_ok_zsub_val [simp]: "shape_ok (zsub_val P c)"
  by (simp add: zsub_val_def)

lemma shape_ok_zsub [simp]: "shape_ok (zsub P c)"
  by (simp add: zsub_def)

lemma shape_ok_zadd [simp]: "shape_ok (zadd P c)"
  by (simp add: zadd_def)

lemma shape_ok_zsub_aligned [simp]: "shape_ok (zsub_aligned P Q)"
  by (simp add: shape_ok_def zsub_aligned_def)

lemma shape_ok_fold: "(\<And>d. shape_ok (g d)) \<Longrightarrow> shape_ok (fold g ds)"
proof (induction ds)
  case Nil
  show ?case by (simp add: shape_ok_def)
next
  case (Cons d ds)
  then show ?case by (simp add: shape_ok_def)
qed

lemma shape_ok_assign_nans [simp]: "shape_ok (assign_nans ds)"
proof (cases ds)
  case (DayInt d)
  have "assign_nans (DayInt d) = zset (\<lambda>x v. d = x) None" by (rule ext) simp
  then show ?thesis using DayInt by simp
next
  case (DayList l)
  have "assign_nans (DayList l) = fold (\<lambda>d. zset (\<lambda>x v. d = x) None) l" by (rule ext) simp
  then show ?thesis using DayList by (simp add: shape_ok_fold)
qed

lemma shape_ok_set [simp]:
  "shape_ok (set_DPT_flag n)" "shape_ok (set_IAO n)"
  "shape_ok (set_albedo_flag n)" "shape_ok (set_no_proc n)"
  by (simp_all add: shape_ok_def set_DPT_flag_def set_IAO_def set_albedo_flag_def set_no_proc_def)

lemma shape_ok_run: "list_all shape_ok fs \<Longrightarrow> shape_ok (run fs)"
proof (induction fs)
  case Nil
  show ?case by (simp add: shape_ok_def)
next
  case (Cons f fs)
  then show ?case by (simp add: shape_ok_def)
qed

lemma shape_NUK_U: "list_all shape_ok (corr_NUK_U year)" by (simp add: corr_NUK_U_def)
lemma shape_NUK_L: "list_all shape_ok (corr_NUK_L year)" by (simp add: corr_NUK_L_def)
lemma shape_NUK_N: "list_all shape_ok (corr_NUK_N year)" by (simp add: corr_NUK_N_def)
lemma shape_NUK_K: "list_all shape_ok (corr_NUK_K year)" by (simp add: corr_NUK_K_def)
lemma shape_UPE_L: "list_all shape_ok (corr_UPE_L year)" by (simp add: corr_UPE_L_def)
lemma shape_UPE_U: "list_all shape_ok (corr_UPE_U year)" by (simp add: corr_UPE_U_def)
lemma shape_KPC_L: "list_all shape_ok (corr_KPC_L year)" by (simp add: corr_KPC_L_def)
lemma shape_KPC_U: "list_all shape_ok (corr_KPC_U year)" by (simp add: corr_KPC_U_def)
lemma shape_KAN_L: "list_all shape_ok (corr_KAN_L year)" by (simp add: corr_KAN_L_def)
lemma shape_KAN_M: "list_all shape_ok (corr_KAN_M year)" by (simp add: corr_KAN_M_def)
lemma shape_QAS_M: "list_all shape_ok (corr_QAS_M year)" by (simp add: corr_QAS_M_def)
lemma shape_QAS_A: "list_all shape_ok (corr_QAS_A year)" by (simp add: corr_QAS_A_def)
lemma shape_QAS_L: "list_all shape_ok (corr_QAS_L year)" by (simp add: corr_QAS_L_def)
lemma shape_QAS_U: "list_all shape_ok (corr_QAS_U year)" by (simp add: corr_QAS_U_def)
lemma shape_THU_L: "list_all shape_ok (corr_THU_L year)" by (simp add: corr_THU_L_def)
lemma shape_THU_U: "list_all shape_ok (corr_THU_U year)" by (simp add: corr_THU_U_def)
lemma shape_THU_U2: "list_all shape_ok (corr_THU_U2 year)" by (simp add: corr_THU_U2_def)
lemma shape_SCO_L: "list_all shape_ok (corr_SCO_L year)" by (simp add: corr_SCO_L_def)
lemma shape_SCO_U: "list_all shape_ok (corr_SCO_U year)" by (simp add: corr_SCO_U_def)
lemma shape_TAS_A: "list_all shape_ok (corr_TAS_A year)" by (simp add: corr_TAS_A_def)
lemma shape_TAS_L: "list_all shape_ok (corr_TAS_L year)" by (simp add: corr_TAS_L_def)
lemma shape_TAS_U: "list_all shape_ok (corr_TAS_U year)" by (simp add: corr_TAS_U_def)
lemma shape_MIT: "list_all shape_ok (corr_MIT year)" by (simp add: corr_MIT_def)

lemmas shape_sites = shape_NUK_U shape_NUK_L shape_NUK_N shape_NUK_K shape_UPE_L shape_UPE_U
  shape_KPC_L shape_KPC_U shape_KAN_L shape_KAN_M shape_QAS_M shape_QAS_A shape_QAS_L shape_QAS_U
  shape_THU_L shape_THU_U shape_THU_U2 shape_SCO_L shape_SCO_U shape_TAS_A shape_TAS_L shape_TAS_U
  shape_MIT

lemma shape_correction: "list_all shape_ok (correction site year)"
  unfolding correction_def by (simp add: shape_sites)

lemma table_state_doy: "doy (table_state site df year) = map DayOfYear df"
proof -
  have "shape_ok (run (correction site year))" by (rule shape_ok_run[OF shape_correction])
  then have "doy (run (correction site year) (init_locals df)) = doy (init_locals df)"
    by (simp add: shape_ok_def)
  then show ?thesis by (simp add: table_state_def Let_def init_locals_def)
qed

lemma table_state_length: "length (z (table_state site df year)) = length df"
proof -
  have "shape_ok (run (correction site year))" by (rule shape_ok_run[OF shape_correction])
  moreover have "length (z (init_locals df)) = length (doy (init_locals df))"
    by (simp add: init_locals_def)
  ultimately have
    "length (z (run (correction site year) (init_locals df))) = length (doy (init_locals df))"
    unfolding shape_ok_def by blast
  then show ?thesis by (simp add: table_state_def Let_def init_locals_def)
qed

section \<open>Evaluating DPT\_processing on concrete rows\<close>

lemmas DPT_eval = DPT_processing_def table_state_def correction_def init_locals_def
  set_DPT_flag_def set_IAO_def set_albedo_flag_def set_no_proc_def albedo_series_def
  albedo_flag_after_def baseline_def premelt_window_def find_BID_def doy_lt_def doy_gt_def
  doy_gt_minus45_def nanmean_def vadd_def vsub_def v_lt_def v_le_def v_gt_def v_ge_def
  isnan_def zset_def zsub_def zsub_val_def zadd_def assign_where_def List.map_filter_def Let_def

section \<open>Pointwise reading of the statements\<close>

lemma doy_assign_where: "doy (assign_where P f s) = doy s"
  by (simp add: assign_where_def)

lemma length_assign_where:
  "length (z (assign_where P f s)) = min (length (doy s)) (length (z s))"
  by (simp add: assign_where_def)

lemma nth_assign_where:
  "i < length (doy s) \<Longrightarrow> i < length (z s) \<Longrightarrow>
   z (assign_where P f s) ! i = (if P (doy s ! i) (z s ! i) then f (z s ! i) else z s ! i)"
  by (simp add: assign_where_def)

lemma flags_assign_where:
  "DPT_flag (assign_where P f s) = DPT_flag s"
  "IAO (assign_where P f s) = IAO s"
  "albedo_flag (assign_where P f s) = albedo_flag s"
  "no_proc (assign_where P f s) = no_proc s"
  by (simp_all add: assign_where_def)

lemmas stmt_simps = doy_assign_where length_assign_where nth_assign_where flags_assign_where
  zset_def zsub_def zsub_val_def zadd_def set_DPT_flag_def set_IAO_def set_albedo_flag_def
  set_no_proc_def

section \<open>The detection loop finds the first drop\<close>

lemma hits_Cons:
  "filter (\<lambda>k. P ((x # xs) ! k)) [0..<Suc (length xs)] =
     (if P x then [0] else []) @ map Suc (filter (\<lambda>k. P (xs ! k)) [0..<length xs])"
proof -
  have "[0..<Suc (length xs)] = 0 # map Suc [0..<length xs]"
    by (simp add: upt_conv_Cons map_Suc_upt del: upt_Suc)
  then show ?thesis by (simp add: filter_map comp_def del: upt_Suc)
qed

lemma first_hit_find:
  "(case filter (\<lambda>k. Q (map snd ps ! k)) [0..<length ps] of
      [] \<Rightarrow> None
    | indx # rest \<Rightarrow> (if indx < length (map fst ps) then Some (map fst ps ! indx) else None))
   = map_option fst (List.find (\<lambda>p. Q (snd p)) ps)"
proof (induction ps)
  case Nil
  show ?case by simp
next
  case (Cons p ps)
  let ?h = "filter (\<lambda>k. Q (map snd ps ! k)) [0..<length ps]"
  have h: "filter (\<lambda>k. Q (map snd (p # ps) ! k)) [0..<length (p # ps)]
           = (if Q (snd p) then [0] else []) @ map Suc ?h"
    using hits_Cons[of Q "snd p" "map snd ps"] by simp
  show ?case
  proof (cases "Q (snd p)")
    case True
    then show ?thesis unfolding h by simp
  next
    case False
    show ?thesis
    proof (cases ?h)
      case Nil
      with Cons.IH False show ?thesis unfolding h by simp
    next
      case (Cons k ks)
      with Cons.IH False show ?thesis unfolding h by (simp split: if_splits)
    qed
  qed
qed

lemma filter_zip_fst:
  "length ds = length zs \<Longrightarrow>
   filter P ds = map fst (filter (\<lambda>(d, v). P d) (zip ds zs))"
  by (induction ds zs rule: list_induct2) auto

lemma find_filter_conj:
  "List.find (\<lambda>p. Q p) (filter P ps) = List.find (\<lambda>p. P p \<and> Q p) ps"
  by (induction ps) auto

lemma find_BID_first_below:
  assumes "length ds = length zs"
  shows "find_BID ds zs (Some i) = first_below ds zs i"
proof -
  let ?ps = "filter (\<lambda>(d, v). doy_gt d (Some i)) (zip ds zs)"
  have a: "filter (\<lambda>d. doy_gt d (Some i)) ds = map fst ?ps"
    by (rule filter_zip_fst[OF assms])
  have "find_BID ds zs (Some i) =
        (case filter (\<lambda>k. v_lt (map snd ?ps ! k) (-0.06)) [0..<length ?ps] of
           [] \<Rightarrow> None
         | indx # rest \<Rightarrow> (if indx < length (map fst ?ps) then Some (map fst ?ps ! indx) else None))"
    unfolding find_BID_def Let_def a by simp
  also have "\<dots> = map_option fst (List.find (\<lambda>p. v_lt (snd p) (-0.06)) ?ps)"
    by (rule first_hit_find)
  also have "\<dots> = map_option fst (List.find (\<lambda>p. (case p of (d, v) \<Rightarrow> doy_gt d (Some i)) \<and> v_lt (snd p) (-0.06)) (zip ds zs))"
    by (simp only: find_filter_conj)
  also have "\<dots> = first_below ds zs i"
    unfolding first_below_def doy_gt_def
    by (rule arg_cong[where f="map_option fst"], rule arg_cong[where f="\<lambda>P. List.find P (zip ds zs)"]) (auto simp: fun_eq_iff)
  finally show ?thesis .
qed

lemma baseline_length: "length (baseline ds zs iao) = length zs"
  by (simp add: baseline_def)

section \<open>Baselining\<close>

lemma premelt_window_map:
  "length ds = length zs \<Longrightarrow>
   premelt_window ds (map f zs) iao = map f (premelt_window ds zs iao)"
  unfolding premelt_window_def
  by (induction ds zs rule: list_induct2) auto

lemma map_filter_vsub:
  "List.map_filter (\<lambda>v. v) (map (\<lambda>v. vsub v (Some m)) w)
   = map (\<lambda>x. x - m) (List.map_filter (\<lambda>v. v) w)"
  by (induction w) (auto simp: List.map_filter_def vsub_def split: option.splits)

lemma sum_list_shift:
  "sum_list (map (\<lambda>x. x - m) ys) = sum_list ys - real (length ys) * (m::real)"
  by (induction ys) (auto simp: algebra_simps)

lemma nanmean_shift:
  assumes "nanmean w = Some m"
  shows "nanmean (map (\<lambda>v. vsub v (Some m)) w) = Some 0"
proof -
  let ?ys = "List.map_filter (\<lambda>v. v) w"
  from assms have ne: "?ys \<noteq> []" and m: "m = sum_list ?ys / real (length ?ys)"
    by (auto simp: nanmean_def Let_def split: if_splits)
  from ne have n0: "real (length ?ys) \<noteq> 0" by simp
  have "sum_list (map (\<lambda>x. x - m) ?ys) = 0"
    unfolding sum_list_shift m using n0 by simp
  then show ?thesis
    using ne by (simp add: nanmean_def Let_def map_filter_vsub)
qed

lemma nanmean_Some:
  "(\<exists>v\<in>set w. v \<noteq> None) \<Longrightarrow> \<exists>m. nanmean w = Some m"
  by (auto simp: nanmean_def Let_def List.map_filter_def filter_empty_conv)


lemma premelt_window_NaN: "premelt_window ds zs None = []"
  by (simp add: premelt_window_def doy_lt_def)

lemma vsub_NaN: "vsub v None = None"
  by (cases v) (simp_all add: vsub_def)

lemma nanmean_Nil: "nanmean [] = None"
  by (simp add: nanmean_def List.map_filter_def)

lemma baseline_NaN: "baseline ds zs None = replicate (length zs) None"
  by (simp add: baseline_def premelt_window_NaN nanmean_Nil vsub_NaN map_replicate_const)

section \<open>The onset day of a station-year that is not rated 3\<close>

text \<open>
  C3. Whenever \<open>DPT_processing\<close> returns with a confidence flag other than 3, the bare
  ice day it returns is missing, whatever the depth series holds.
\<close>

theorem BID_missing_unless_flag_3:
  assumes "DPT_processing site df year = Inr (zs, albedo, flag, bid, aflag)"
    and "flag \<noteq> 3"
  shows "bid = None"
  using assms
  by (auto simp: DPT_processing_def Let_def split: option.splits if_splits)

text \<open>NUK\_L 2018 is rated 2; its depth drops to -1 m on day 200 and no onset is reported.\<close>

theorem BID_missing_unless_flag_3_witness:
  "DPT_processing ''NUK_L''
     [\<lparr>Year = 2018, DayOfYear = 150, DepthPressureTransducer_Cor = Some 0,
       Albedo_theta_lt_70d = Some 0.5, AirTemperature = Some 1, HeightSensorBoom = Some 2\<rparr>,
      \<lparr>Year = 2018, DayOfYear = 200, DepthPressureTransducer_Cor = Some (-1),
       Albedo_theta_lt_70d = Some 0.5, AirTemperature = Some 1, HeightSensorBoom = Some 2\<rparr>] 2018
   = Inr ([None, None], [Some 0.534, Some 0.534], 2, None, 1)"
proof -
  let ?df = "[\<lparr>Year = 2018, DayOfYear = 150, DepthPressureTransducer_Cor = Some 0,
       Albedo_theta_lt_70d = Some 0.5, AirTemperature = Some 1, HeightSensorBoom = Some 2\<rparr>,
      \<lparr>Year = 2018, DayOfYear = 200, DepthPressureTransducer_Cor = Some (-1),
       Albedo_theta_lt_70d = Some 0.5, AirTemperature = Some 1, HeightSensorBoom = Some 2\<rparr>]"
  have "\<exists>bid. DPT_processing ''NUK_L'' ?df 2018
          = Inr ([None, None], [Some 0.534, Some 0.534], 2, bid, 1)"
    by (simp add: DPT_eval corr_NUK_L_def)
  then obtain bid where e:
    "DPT_processing ''NUK_L'' ?df 2018 = Inr ([None, None], [Some 0.534, Some 0.534], 2, bid, 1)"
    by blast
  have "(2::int) \<noteq> 3" by simp
  from BID_missing_unless_flag_3[OF e this] e show ?thesis by simp
qed

section \<open>A single year passed to BIC\_processing\<close>

text \<open>
  C10. When the year argument is one integer year (neither "all" nor a list),
  \<open>BIC_processing\<close> raises UnboundLocalError for every loaded table and returns no
  processed table: the \<open>y\<close> it reads is bound only by the loop of the other branch.
\<close>

theorem BIC_processing_single_year_unbound:
  "BIC_processing site (YearInt y) promice_data = Inl UnboundLocalError"
  by (simp add: BIC_processing_def)

section \<open>Station-years that are not rated 3\<close>

text \<open>
  C1. For a station-year whose confidence flag is not 3, \<open>DPT_processing\<close> is expected
  to skip baselining and hand the depth series back unchanged, only the albedo getting
  its bias, with no exception. The code sets \<open>IAO\<close> to NaN and baselines all the same:
  the pre-melt window is empty, its mean is NaN, and subtracting it blanks the whole
  depth series. NUK\_U 2007 (flag 1, no correction) with one valid depth reading of 1 m
  comes back with that reading missing.
\<close>

theorem depth_series_blanked_for_flag_1:
  "DPT_processing ''NUK_U''
     [\<lparr>Year = 2007, DayOfYear = 100, DepthPressureTransducer_Cor = Some 1,
       Albedo_theta_lt_70d = Some 0.5, AirTemperature = Some (-5), HeightSensorBoom = Some 2\<rparr>] 2007
   = Inr ([None], [Some 0.534], 1, None, 1)"
  by (simp add: DPT_eval corr_NUK_U_def)

text \<open>The same holds for every station-year that is not rated 3: the depth series that
  comes back is entirely missing.\<close>

lemma depth_series_blanked_unless_flag_3:
  assumes "DPT_processing site df year = Inr (zs, albedo, flag, bid, aflag)"
    and "flag \<noteq> 3"
  shows "zs = replicate (length df) None"
  using assms
  by (auto simp: DPT_processing_def Let_def baseline_NaN table_state_length
      split: option.splits if_splits)

text \<open>A year of a station in the table that no branch covers gets flag 0 and no
  exception, as the branches' final \<open>else\<close> sets \<open>no_proc\<close>; the THU\_U2 branch has no such
  \<open>else\<close>, and a site the chain does not know has no branch at all: both leave
  \<open>DPT_flag\<close> unbound.\<close>

lemma absent_year_flag_0:
  "DPT_processing ''NUK_U'' df 2005
   = Inr (replicate (length df) None, albedo_series df 1,
          0, None, albedo_flag_after (albedo_series df 1) 1)"
  by (simp add: DPT_processing_def table_state_def correction_def corr_NUK_U_def init_locals_def
      set_no_proc_def Let_def baseline_NaN)

lemma THU_U2_absent_year_raises: "DPT_processing ''THU_U2'' df 2017 = Inl UnboundLocalError"
  by (simp add: DPT_eval corr_THU_U2_def)

lemma unknown_site_raises:
  "DPT_processing ''XXX_L'' df year = Inl UnboundLocalError"
  by (simp add: DPT_eval)

section \<open>The onset day of a station-year rated 3\<close>

text \<open>What a successful call with flag 3 went through.\<close>

lemma DPT_processing_flag_3:
  assumes "DPT_processing site df year = Inr (zs, albedo, 3, bid, aflag)"
  shows "\<exists>iao. IAO (table_state site df year) = Some iao \<and>
           DPT_flag (table_state site df year) = Some 3 \<and>
           zs = baseline (map DayOfYear df) (z (table_state site df year)) (Some iao) \<and>
           albedo = albedo_series df (albedo_flag (table_state site df year)) \<and>
           (if albedo_flag_after albedo (albedo_flag (table_state site df year)) = 1
            then bid = find_BID (map DayOfYear df) zs (Some iao) \<and>
                 aflag = (if bid = None then 0 else 1)
            else bid = None \<and>
                 aflag = albedo_flag_after albedo (albedo_flag (table_state site df year)))"
proof -
  let ?st = "table_state site df year"
  from assms have f: "DPT_flag ?st = Some 3"
    unfolding DPT_processing_def Let_def by (auto split: option.splits if_splits)
  with assms obtain iao where i: "IAO ?st = Some iao"
    unfolding DPT_processing_def Let_def by (cases "IAO ?st") auto
  let ?zb = "baseline (map DayOfYear df) (z ?st) (Some iao)"
  let ?al = "albedo_series df (albedo_flag ?st)"
  let ?af = "albedo_flag_after ?al (albedo_flag ?st)"
  have eq: "DPT_processing site df year =
      (if ?af = 1 then
         (case find_BID (map DayOfYear df) ?zb (Some iao) of
            Some b \<Rightarrow> Inr (?zb, ?al, 3, Some b, ?af)
          | None \<Rightarrow> Inr (?zb, ?al, 3, None, 0))
       else Inr (?zb, ?al, 3, None, ?af))"
    by (simp add: DPT_processing_def Let_def f i table_state_doy)
  show ?thesis
  proof (cases "?af = 1")
    case False
    with assms[unfolded eq] have "zs = ?zb" "albedo = ?al" "bid = None" "aflag = ?af"
      by auto
    with False i f show ?thesis by simp
  next
    case True
    show ?thesis
    proof (cases "find_BID (map DayOfYear df) ?zb (Some iao)")
      case None
      with True assms[unfolded eq] have "zs = ?zb" "albedo = ?al" "bid = None" "aflag = 0"
        by auto
      with True None i f show ?thesis by simp
    next
      case (Some b)
      with True assms[unfolded eq] have "zs = ?zb" "albedo = ?al" "bid = Some b" "aflag = 1"
        by auto
      with True Some i f show ?thesis by simp
    qed
  qed
qed

text \<open>
  C2, as the code has it. For a station-year rated 3 whose albedo is still valid when
  detection starts (the branch did not clear the albedo flag and the bias-corrected
  albedo is not entirely missing), the bare ice day is the day of the first sample, in
  series order, strictly after the approximate onset day whose baselined depth is below
  -0.06 m; when there is none the bare ice day is missing and the albedo flag is cleared.
  When the albedo is already invalid no detection runs: the bare ice day is missing.
\<close>

theorem BID_is_first_drop_when_albedo_valid:
  assumes "DPT_processing site df year = Inr (zs, albedo, 3, bid, aflag)"
  shows "\<exists>iao. IAO (table_state site df year) = Some iao \<and>
           (if albedo_flag_after albedo (albedo_flag (table_state site df year)) = 1
            then bid = first_below (map DayOfYear df) zs iao \<and>
                 aflag = (if bid = None then 0 else 1)
            else bid = None \<and>
                 aflag = albedo_flag_after albedo (albedo_flag (table_state site df year)))"
proof -
  from DPT_processing_flag_3[OF assms] obtain iao where
    i: "IAO (table_state site df year) = Some iao"
    and zs: "zs = baseline (map DayOfYear df) (z (table_state site df year)) (Some iao)"
    and r: "if albedo_flag_after albedo (albedo_flag (table_state site df year)) = 1
            then bid = find_BID (map DayOfYear df) zs (Some iao) \<and>
                 aflag = (if bid = None then 0 else 1)
            else bid = None \<and>
                 aflag = albedo_flag_after albedo (albedo_flag (table_state site df year))"
    by blast
  have "length (map DayOfYear df) = length zs"
    unfolding zs by (simp add: baseline_length table_state_length)
  from find_BID_first_below[OF this] r i show ?thesis by auto
qed

text \<open>SCO\_L 2012 has approximate onset day 150; the depth first drops below -0.06 m on
  day 158.\<close>

theorem BID_is_first_drop_when_albedo_valid_witness:
  "DPT_processing ''SCO_L''
     [\<lparr>Year = 2012, DayOfYear = 140, DepthPressureTransducer_Cor = Some 1,
       Albedo_theta_lt_70d = Some 0.5, AirTemperature = Some 1, HeightSensorBoom = Some 2\<rparr>,
      \<lparr>Year = 2012, DayOfYear = 155, DepthPressureTransducer_Cor = Some 0.99,
       Albedo_theta_lt_70d = Some 0.5, AirTemperature = Some 1, HeightSensorBoom = Some 2\<rparr>,
      \<lparr>Year = 2012, DayOfYear = 158, DepthPressureTransducer_Cor = Some 0.5,
       Albedo_theta_lt_70d = Some 0.5, AirTemperature = Some 1, HeightSensorBoom = Some 2\<rparr>] 2012
   = Inr ([Some 0, Some (-0.01), Some (-0.5)], [Some 0.534, Some 0.534, Some 0.534], 3, Some 158, 1)
   \<and> first_below [140, 155, 158] [Some 0, Some (-0.01), Some (-0.5)] 150 = Some 158"
proof -
  let ?df = "[\<lparr>Year = 2012, DayOfYear = 140, DepthPressureTransducer_Cor = Some 1,
       Albedo_theta_lt_70d = Some 0.5, AirTemperature = Some 1, HeightSensorBoom = Some 2\<rparr>,
      \<lparr>Year = 2012, DayOfYear = 155, DepthPressureTransducer_Cor = Some 0.99,
       Albedo_theta_lt_70d = Some 0.5, AirTemperature = Some 1, HeightSensorBoom = Some 2\<rparr>,
      \<lparr>Year = 2012, DayOfYear = 158, DepthPressureTransducer_Cor = Some 0.5,
       Albedo_theta_lt_70d = Some 0.5, AirTemperature = Some 1, HeightSensorBoom = Some 2\<rparr>]"
  have e: "DPT_processing ''SCO_L'' ?df 2012
     = Inr ([Some 0, Some (-0.01), Some (-0.5)], [Some 0.534, Some 0.534, Some 0.534], 3, Some 158, 1)"
    by (simp add: DPT_eval corr_SCO_L_def)
  have i: "IAO (table_state ''SCO_L'' ?df 2012) = Some 150"
    by (simp add: table_state_def correction_def corr_SCO_L_def init_locals_def
        set_DPT_flag_def set_IAO_def Let_def)
  have a: "albedo_flag_after [Some 0.534, Some 0.534, Some 0.534]
             (albedo_flag (table_state ''SCO_L'' ?df 2012)) = 1"
    by (simp add: table_state_def correction_def corr_SCO_L_def init_locals_def
        set_DPT_flag_def set_IAO_def Let_def albedo_flag_after_def isnan_def)
  from BID_is_first_drop_when_albedo_valid[OF e] i a
  have "Some 158 = first_below (map DayOfYear ?df) [Some 0, Some (-0.01), Some (-0.5)] 150"
    by simp
  with e show ?thesis by simp
qed

text \<open>
  C2 as stated fails: the same series, with the albedo of the station-year entirely
  missing, is rated 3 and its baselined depth first drops below -0.06 m on day 158 after
  onset day 150, yet no bare ice day is returned.
\<close>

theorem BID_missing_although_depth_drops:
  "DPT_processing ''SCO_L''
     [\<lparr>Year = 2012, DayOfYear = 140, DepthPressureTransducer_Cor = Some 1,
       Albedo_theta_lt_70d = None, AirTemperature = Some 1, HeightSensorBoom = Some 2\<rparr>,
      \<lparr>Year = 2012, DayOfYear = 155, DepthPressureTransducer_Cor = Some 0.99,
       Albedo_theta_lt_70d = None, AirTemperature = Some 1, HeightSensorBoom = Some 2\<rparr>,
      \<lparr>Year = 2012, DayOfYear = 158, DepthPressureTransducer_Cor = Some 0.5,
       Albedo_theta_lt_70d = None, AirTemperature = Some 1, HeightSensorBoom = Some 2\<rparr>] 2012
   = Inr ([Some 0, Some (-0.01), Some (-0.5)], [None, None, None], 3, None, 0)
   \<and> first_below [140, 155, 158] [Some 0, Some (-0.01), Some (-0.5)] 150 = Some 158"
  by (simp add: DPT_eval corr_SCO_L_def first_below_def)

section \<open>The pre-melt mean after baselining\<close>

text \<open>
  C7, as the code has it. For a station-year rated 3 whose depth series, as the
  correction branch leaves it, has a non-missing sample with day strictly between the
  approximate onset day minus 45 and the approximate onset day, the depth series that
  \<open>DPT_processing\<close> returns has mean 0 over that open window (readings are exact reals
  here, so the mean is exactly 0).
\<close>

theorem premelt_mean_is_zero:
  assumes "DPT_processing site df year = Inr (zs, albedo, 3, bid, aflag)"
  shows "\<exists>iao. IAO (table_state site df year) = Some iao \<and>
     ((\<exists>v \<in> set (premelt_window (map DayOfYear df) (z (table_state site df year)) (Some iao)).
          v \<noteq> None)
        \<longrightarrow> nanmean (premelt_window (map DayOfYear df) zs (Some iao)) = Some 0)"
proof -
  let ?st = "table_state site df year"
  from DPT_processing_flag_3[OF assms] obtain iao where
    i: "IAO ?st = Some iao"
    and zs: "zs = baseline (map DayOfYear df) (z ?st) (Some iao)"
    by blast
  let ?w = "premelt_window (map DayOfYear df) (z ?st) (Some iao)"
  have len: "length (map DayOfYear df) = length (z ?st)"
    by (simp add: table_state_length)
  {
    assume "\<exists>v \<in> set ?w. v \<noteq> None"
    from nanmean_Some[OF this] obtain m where m: "nanmean ?w = Some m" by blast
    have "premelt_window (map DayOfYear df) zs (Some iao) = map (\<lambda>v. vsub v (Some m)) ?w"
      unfolding zs baseline_def m by (rule premelt_window_map[OF len])
    then have "nanmean (premelt_window (map DayOfYear df) zs (Some iao)) = Some 0"
      using nanmean_shift[OF m] by simp
  }
  with i show ?thesis by blast
qed


text \<open>KAN\_L 2013 (onset day 141, no correction): two pre-melt readings, 2 m and 4 m, and a
  missing one.\<close>

theorem premelt_mean_is_zero_witness:
  "DPT_processing ''KAN_L''
     [\<lparr>Year = 2013, DayOfYear = 100, DepthPressureTransducer_Cor = Some 2,
       Albedo_theta_lt_70d = Some 0.5, AirTemperature = Some 1, HeightSensorBoom = Some 2\<rparr>,
      \<lparr>Year = 2013, DayOfYear = 120, DepthPressureTransducer_Cor = None,
       Albedo_theta_lt_70d = Some 0.5, AirTemperature = Some 1, HeightSensorBoom = Some 2\<rparr>,
      \<lparr>Year = 2013, DayOfYear = 140, DepthPressureTransducer_Cor = Some 4,
       Albedo_theta_lt_70d = Some 0.5, AirTemperature = Some 1, HeightSensorBoom = Some 2\<rparr>,
      \<lparr>Year = 2013, DayOfYear = 150, DepthPressureTransducer_Cor = Some 1,
       Albedo_theta_lt_70d = Some 0.5, AirTemperature = Some 1, HeightSensorBoom = Some 2\<rparr>] 2013
   = Inr ([Some (-1), None, Some 1, Some (-2)],
          [Some 0.534, Some 0.534, Some 0.534, Some 0.534], 3, Some 150, 1)
   \<and> nanmean (premelt_window [100, 120, 140, 150] [Some (-1), None, Some 1, Some (-2)] (Some 141))
       = Some 0"
proof -
  let ?df = "[\<lparr>Year = 2013, DayOfYear = 100, DepthPressureTransducer_Cor = Some 2,
       Albedo_theta_lt_70d = Some 0.5, AirTemperature = Some 1, HeightSensorBoom = Some 2\<rparr>,
      \<lparr>Year = 2013, DayOfYear = 120, DepthPressureTransducer_Cor = None,
       Albedo_theta_lt_70d = Some 0.5, AirTemperature = Some 1, HeightSensorBoom = Some 2\<rparr>,
      \<lparr>Year = 2013, DayOfYear = 140, DepthPressureTransducer_Cor = Some 4,
       Albedo_theta_lt_70d = Some 0.5, AirTemperature = Some 1, HeightSensorBoom = Some 2\<rparr>,
      \<lparr>Year = 2013, DayOfYear = 150, DepthPressureTransducer_Cor = Some 1,
       Albedo_theta_lt_70d = Some 0.5, AirTemperature = Some 1, HeightSensorBoom = Some 2\<rparr>]"
  have e: "DPT_processing ''KAN_L'' ?df 2013
     = Inr ([Some (-1), None, Some 1, Some (-2)],
            [Some 0.534, Some 0.534, Some 0.534, Some 0.534], 3, Some 150, 1)"
    by (simp add: DPT_eval corr_KAN_L_def)
  have st: "table_state ''KAN_L'' ?df 2013
     = \<lparr>z = [Some 2, None, Some 4, Some 1], doy = [100, 120, 140, 150],
        DPT_flag = Some 3, IAO = Some 141, albedo_flag = 1, no_proc = 0\<rparr>"
    by (simp add: table_state_def correction_def corr_KAN_L_def init_locals_def
        set_DPT_flag_def set_IAO_def Let_def)
  have w: "\<exists>v \<in> set (premelt_window (map DayOfYear ?df) (z (table_state ''KAN_L'' ?df 2013))
                      (Some 141)). v \<noteq> None"
    unfolding st by (simp add: premelt_window_def doy_lt_def doy_gt_minus45_def)
  from premelt_mean_is_zero[OF e] st w
  have "nanmean (premelt_window (map DayOfYear ?df) [Some (-1), None, Some 1, Some (-2)] (Some 141))
        = Some 0"
    by auto
  with e show ?thesis by simp
qed

text \<open>
  C7 as stated, with the hypothesis on the depth series of the station-year as loaded,
  fails: the correction branch can blank the only pre-melt sample. NUK\_U 2018 (onset day
  161) blanks day 123; a record whose only reading in the window (116, 161) is on day 123
  comes back entirely missing, and the mean over the window is NaN.
\<close>

theorem premelt_mean_missing_after_exclusion:
  "DPT_processing ''NUK_U''
     [\<lparr>Year = 2018, DayOfYear = 123, DepthPressureTransducer_Cor = Some 1,
       Albedo_theta_lt_70d = Some 0.5, AirTemperature = Some 1, HeightSensorBoom = Some 2\<rparr>,
      \<lparr>Year = 2018, DayOfYear = 170, DepthPressureTransducer_Cor = Some 0.5,
       Albedo_theta_lt_70d = Some 0.5, AirTemperature = Some 1, HeightSensorBoom = Some 2\<rparr>] 2018
   = Inr ([None, None], [Some 0.534, Some 0.534], 3, None, 0)
   \<and> premelt_window [123, 170] [Some 1, Some 0.5] (Some 161) = [Some 1]
   \<and> nanmean (premelt_window [123, 170] [None, None] (Some 161)) = None"
  by (simp add: DPT_eval corr_NUK_U_def)

section \<open>Order of the adjustments and the series they read\<close>

lemma run_append: "run (fs @ gs) s = run gs (run fs s)"
  by (induction fs arbitrary: s) simp_all

lemma run_take_Suc:
  assumes "k < length fs"
  shows "run (take (Suc k) fs) s = (fs ! k) (run (take k fs) s)"
  using assms by (simp add: take_Suc_conv_app_nth run_append)

lemma table_state_z: "z (table_state site df year) = z (run (correction site year) (init_locals df))"
  by (simp add: table_state_def Let_def)

lemma reads_assign_where [simp]: "reads_current_series (assign_where P g)"
  unfolding reads_current_series_def
  by (rule exI[of _ "\<lambda>d v. if P d v then g v else v"]) (simp add: assign_where_def)

lemma reads_zset [simp]: "reads_current_series (zset P c)"
  by (simp add: zset_def)

lemma reads_zsub_val [simp]: "reads_current_series (zsub_val P c)"
  by (simp add: zsub_val_def)

lemma reads_zsub [simp]: "reads_current_series (zsub P c)"
  by (simp add: zsub_def)

lemma reads_zadd [simp]: "reads_current_series (zadd P c)"
  by (simp add: zadd_def)

lemma reads_zsub_aligned [simp]: "reads_current_series (zsub_aligned P Q)"
  unfolding reads_current_series_def
  by (rule exI[of _ "\<lambda>d v. if P d then (if Q d then vsub v v else None) else v"])
     (simp add: zsub_aligned_def)

lemma map_snd_zip_case: "length ds = length zs \<Longrightarrow> map (\<lambda>(d, v). v) (zip ds zs) = zs"
  by (induction ds zs rule: list_induct2) auto

lemma reads_set [simp]:
  "reads_current_series (set_DPT_flag n)" "reads_current_series (set_IAO n)"
  "reads_current_series (set_albedo_flag n)" "reads_current_series (set_no_proc n)"
  unfolding reads_current_series_def
  by (rule exI[of _ "\<lambda>d v. v"],
      simp add: set_DPT_flag_def set_IAO_def set_albedo_flag_def set_no_proc_def map_snd_zip_case)+

lemma zip_map_zip:
  "zip ds (map (\<lambda>(d, v). h d v) (zip ds zs)) = map (\<lambda>(d, v). (d, h d v)) (zip ds zs)"
  by (induction ds arbitrary: zs) (auto simp: zip_Cons1 split: list.splits)

lemma reads_comp:
  assumes "reads_current_series f" and "reads_current_series g"
  shows "reads_current_series (\<lambda>s. g (f s))"
proof -
  from assms(1) obtain hf where
    f: "\<And>s. doy (f s) = doy s"
       "\<And>s. length (z s) = length (doy s) \<Longrightarrow> z (f s) = map (\<lambda>(d, v). hf d v) (zip (doy s) (z s))"
    unfolding reads_current_series_def by blast
  from assms(2) obtain hg where
    g: "\<And>s. doy (g s) = doy s"
       "\<And>s. length (z s) = length (doy s) \<Longrightarrow> z (g s) = map (\<lambda>(d, v). hg d v) (zip (doy s) (z s))"
    unfolding reads_current_series_def by blast
  have "z (g (f s)) = map (\<lambda>(d, v). hg d (hf d v)) (zip (doy s) (z s))"
    if l: "length (z s) = length (doy s)" for s
  proof -
    have zf: "z (f s) = map (\<lambda>(d, v). hf d v) (zip (doy s) (z s))" by (rule f(2)[OF l])
    then have "length (z (f s)) = length (doy (f s))" using l by (simp add: f(1))
    from g(2)[OF this] have "z (g (f s)) = map (\<lambda>(d, v). hg d v) (zip (doy s) (z (f s)))"
      by (simp add: f(1))
    also have "\<dots> = map (\<lambda>(d, v). hg d (hf d v)) (zip (doy s) (z s))"
      unfolding zf zip_map_zip by (simp add: case_prod_beta comp_def)
    finally show ?thesis .
  qed
  then show ?thesis
    unfolding reads_current_series_def
    by (intro exI[of _ "\<lambda>d v. hg d (hf d v)"]) (simp add: f(1) g(1))
qed

lemma reads_id: "reads_current_series (\<lambda>s. s)"
  unfolding reads_current_series_def
  by (rule exI[of _ "\<lambda>d v. v"]) (simp add: map_snd_zip_case)

lemma reads_fold: "(\<And>d. reads_current_series (g d)) \<Longrightarrow> reads_current_series (fold g ds)"
proof (induction ds)
  case Nil
  have "fold g [] = (\<lambda>s. s)" by (rule ext) simp
  then show ?case by (simp only: reads_id)
next
  case (Cons d ds)
  have "fold g (d # ds) = (\<lambda>s. fold g ds (g d s))" by (rule ext) simp
  with reads_comp[OF Cons.prems Cons.IH[OF Cons.prems]] show ?case by (simp only:)
qed

lemma reads_assign_nans [simp]: "reads_current_series (assign_nans ds)"
proof (cases ds)
  case (DayInt d)
  have "assign_nans (DayInt d) = zset (\<lambda>x v. d = x) None" by (rule ext) simp
  then show ?thesis using DayInt by simp
next
  case (DayList l)
  have "assign_nans (DayList l) = fold (\<lambda>d. zset (\<lambda>x v. d = x) None) l" by (rule ext) simp
  then show ?thesis using DayList by (simp add: reads_fold)
qed

lemma reads_NUK_U: "list_all reads_current_series (corr_NUK_U year)" by (simp add: corr_NUK_U_def)
lemma reads_NUK_L: "list_all reads_current_series (corr_NUK_L year)" by (simp add: corr_NUK_L_def)
lemma reads_NUK_N: "list_all reads_current_series (corr_NUK_N year)" by (simp add: corr_NUK_N_def)
lemma reads_NUK_K: "list_all reads_current_series (corr_NUK_K year)" by (simp add: corr_NUK_K_def)
lemma reads_UPE_L: "list_all reads_current_series (corr_UPE_L year)" by (simp add: corr_UPE_L_def)
lemma reads_UPE_U: "list_all reads_current_series (corr_UPE_U year)" by (simp add: corr_UPE_U_def)
lemma reads_KPC_L: "list_all reads_current_series (corr_KPC_L year)" by (simp add: corr_KPC_L_def)
lemma reads_KPC_U: "list_all reads_current_series (corr_KPC_U year)" by (simp add: corr_KPC_U_def)
lemma reads_KAN_L: "list_all reads_current_series (corr_KAN_L year)" by (simp add: corr_KAN_L_def)
lemma reads_KAN_M: "list_all reads_current_series (corr_KAN_M year)" by (simp add: corr_KAN_M_def)
lemma reads_QAS_M: "list_all reads_current_series (corr_QAS_M year)" by (simp add: corr_QAS_M_def)
lemma reads_QAS_A: "list_all reads_current_series (corr_QAS_A year)" by (simp add: corr_QAS_A_def)
lemma reads_QAS_L: "list_all reads_current_series (corr_QAS_L year)" by (simp add: corr_QAS_L_def)
lemma reads_QAS_U: "list_all reads_current_series (corr_QAS_U year)" by (simp add: corr_QAS_U_def)
lemma reads_THU_L: "list_all reads_current_series (corr_THU_L year)" by (simp add: corr_THU_L_def)
lemma reads_THU_U: "list_all reads_current_series (corr_THU_U year)" by (simp add: corr_THU_U_def)
lemma reads_THU_U2: "list_all reads_current_series (corr_THU_U2 year)" by (simp add: corr_THU_U2_def)
lemma reads_SCO_L: "list_all reads_current_series (corr_SCO_L year)" by (simp add: corr_SCO_L_def)
lemma reads_SCO_U: "list_all reads_current_series (corr_SCO_U year)" by (simp add: corr_SCO_U_def)
lemma reads_TAS_A: "list_all reads_current_series (corr_TAS_A year)" by (simp add: corr_TAS_A_def)
lemma reads_TAS_L: "list_all reads_current_series (corr_TAS_L year)" by (simp add: corr_TAS_L_def)
lemma reads_TAS_U: "list_all reads_current_series (corr_TAS_U year)" by (simp add: corr_TAS_U_def)
lemma reads_MIT: "list_all reads_current_series (corr_MIT year)" by (simp add: corr_MIT_def)

lemmas reads_sites = reads_NUK_U reads_NUK_L reads_NUK_N reads_NUK_K reads_UPE_L reads_UPE_U
  reads_KPC_L reads_KPC_U reads_KAN_L reads_KAN_M reads_QAS_M reads_QAS_A reads_QAS_L reads_QAS_U
  reads_THU_L reads_THU_U reads_THU_U2 reads_SCO_L reads_SCO_U reads_TAS_A reads_TAS_L reads_TAS_U
  reads_MIT

lemma reads_correction: "list_all reads_current_series (correction site year)"
  unfolding correction_def by (simp add: reads_sites)

lemma nth_assign_nans_list:
  "length (z s) = length (doy s) \<Longrightarrow> i < length (z s) \<Longrightarrow>
   z (fold (\<lambda>d. zset (\<lambda>x v. d = x) None) ds s) ! i
     = (if doy s ! i \<in> set ds then None else z s ! i)"
proof (induction ds arbitrary: s)
  case Nil
  then show ?case by simp
next
  case (Cons d ds)
  let ?s = "zset (\<lambda>x v. d = x) None s"
  have l: "length (z ?s) = length (doy ?s)" and i: "i < length (z ?s)" and dy: "doy ?s = doy s"
    using Cons.prems by (simp_all add: zset_def length_assign_where doy_assign_where)
  have v: "z ?s ! i = (if d = doy s ! i then None else z s ! i)"
    using Cons.prems by (simp add: zset_def nth_assign_where)
  from Cons.IH[OF l i] show ?case unfolding dy v by auto
qed

lemma order_part:
  "(\<forall>k<length (correction site year).
      run (take (Suc k) (correction site year)) (init_locals df)
        = (correction site year ! k) (run (take k (correction site year)) (init_locals df)))"
  by (simp add: run_take_Suc)

lemma reads_part:
  "(\<forall>f\<in>set (correction site year). reads_current_series f)"
  using reads_correction[of site year] by (simp add: list_all_iff)

lemma kinds_part:
  "(length (z s) = length (doy s) \<and> i < length (z s) \<longrightarrow>
      z (zset P c s) ! i = (if P (doy s ! i) (z s ! i) then c else z s ! i) \<and>
      z (zsub P x s) ! i
        = (if P (doy s ! i) (z s ! i) then vsub (z s ! i) (Some x) else z s ! i) \<and>
      z (zadd P x s) ! i
        = (if P (doy s ! i) (z s ! i) then vadd (z s ! i) (Some x) else z s ! i) \<and>
      z (assign_nans (DayInt n) s) ! i = (if doy s ! i = n then None else z s ! i) \<and>
      z (assign_nans (DayList ns) s) ! i = (if doy s ! i \<in> set ns then None else z s ! i))"
proof (intro impI)
  assume a: "length (z s) = length (doy s) \<and> i < length (z s)"
  then have l: "length (z s) = length (doy s)" and i: "i < length (z s)" by simp_all
  from l i have i': "i < length (doy s)" by simp
  show "z (zset P c s) ! i = (if P (doy s ! i) (z s ! i) then c else z s ! i) \<and>
      z (zsub P x s) ! i
        = (if P (doy s ! i) (z s ! i) then vsub (z s ! i) (Some x) else z s ! i) \<and>
      z (zadd P x s) ! i
        = (if P (doy s ! i) (z s ! i) then vadd (z s ! i) (Some x) else z s ! i) \<and>
      z (assign_nans (DayInt n) s) ! i = (if doy s ! i = n then None else z s ! i) \<and>
      z (assign_nans (DayList ns) s) ! i = (if doy s ! i \<in> set ns then None else z s ! i)"
    using i i' nth_assign_nans_list[OF l i, of ns]
    by (auto simp: zset_def zsub_def zsub_val_def zadd_def nth_assign_where)
qed

lemma KAN_L_2009_sample:
  assumes "j < length df"
  shows "z (table_state ''KAN_L'' df 2009) ! j
            = (if DayOfYear (df ! j) = 276 then None
               else if DayOfYear (df ! j) \<ge> 260 \<and>
                       (DepthPressureTransducer_Cor (df ! j) = None \<or>
                        v_ge (DepthPressureTransducer_Cor (df ! j)) (-3.2)) then Some (-3.5)
               else if DayOfYear (df ! j) \<ge> 250 \<and>
                       v_ge (DepthPressureTransducer_Cor (df ! j)) (-3.2) then None
               else DepthPressureTransducer_Cor (df ! j))"
  using assms
  by (cases "DepthPressureTransducer_Cor (df ! j)")
     (simp_all add: table_state_def correction_def corr_KAN_L_def init_locals_def
        Let_def stmt_simps v_ge_def isnan_def)

lemma KAN_L_2010_sample:
  assumes "j < length df"
  shows "z (table_state ''KAN_L'' df 2010) ! j
            = (if DayOfYear (df ! j) = 136 \<or> DayOfYear (df ! j) = 284 then None
               else if DayOfYear (df ! j) \<ge> 260 \<and>
                       (DepthPressureTransducer_Cor (df ! j) = None \<or>
                        v_ge (DepthPressureTransducer_Cor (df ! j)) (-5.1)) then Some (-5.45)
               else if DayOfYear (df ! j) \<ge> 280
                    then vsub (DepthPressureTransducer_Cor (df ! j)) (Some 0.1)
               else DepthPressureTransducer_Cor (df ! j))"
  using assms
  by (cases "DepthPressureTransducer_Cor (df ! j)")
     (simp_all add: table_state_def correction_def corr_KAN_L_def init_locals_def
        Let_def stmt_simps v_ge_def isnan_def vsub_def)

lemma THU_U_2016_sample:
  assumes "j < length df"
  shows "z (table_state ''THU_U'' df 2016) ! j
            = (if DayOfYear (df ! j) = 203 then None
               else if v_lt (if DayOfYear (df ! j) \<ge> 204
                             then vadd (DepthPressureTransducer_Cor (df ! j)) (Some 2.5)
                             else DepthPressureTransducer_Cor (df ! j)) (-0.5) then None
               else if DayOfYear (df ! j) \<ge> 204
                    then vadd (DepthPressureTransducer_Cor (df ! j)) (Some 2.5)
               else DepthPressureTransducer_Cor (df ! j))"
  using assms
  by (cases "DepthPressureTransducer_Cor (df ! j)")
     (simp_all add: table_state_def correction_def corr_THU_U_def init_locals_def
        Let_def stmt_simps v_lt_def vadd_def)

lemma examples_part:
  "(j < length df \<longrightarrow>
      (let d = DayOfYear (df ! j); v = DepthPressureTransducer_Cor (df ! j)
       in z (table_state ''KAN_L'' df 2009) ! j
            = (if d = 276 then None
               else if d \<ge> 260 \<and> (v = None \<or> v_ge v (-3.2)) then Some (-3.5)
               else if d \<ge> 250 \<and> v_ge v (-3.2) then None
               else v) \<and>
          z (table_state ''KAN_L'' df 2010) ! j
            = (if d = 136 \<or> d = 284 then None
               else if d \<ge> 260 \<and> (v = None \<or> v_ge v (-5.1)) then Some (-5.45)
               else if d \<ge> 280 then vsub v (Some 0.1)
               else v) \<and>
          z (table_state ''THU_U'' df 2016) ! j
            = (if d = 203 then None
               else if v_lt (if d \<ge> 204 then vadd v (Some 2.5) else v) (-0.5) then None
               else if d \<ge> 204 then vadd v (Some 2.5)
               else v)))"
  by (simp add: Let_def KAN_L_2009_sample KAN_L_2010_sample THU_U_2016_sample)

lemma returned_part:
  "(DPT_processing site df year = Inr (zs, al, flag, bid, af) \<longrightarrow>
      zs = baseline (map DayOfYear df) (z (run (correction site year) (init_locals df)))
             (if flag = 3 then IAO (table_state site df year) else None))"
proof
  assume a: "DPT_processing site df year = Inr (zs, al, flag, bid, af)"
  then have "zs = baseline (doy (table_state site df year)) (z (table_state site df year))
                          (if flag \<noteq> 3 then None else IAO (table_state site df year))"
    by (auto simp: DPT_processing_def Let_def split: option.splits if_splits)
  then show "zs = baseline (map DayOfYear df) (z (run (correction site year) (init_locals df)))
             (if flag = 3 then IAO (table_state site df year) else None)"
    by (simp add: table_state_doy table_state_z)
qed

text \<open>
  C8. The adjustments of a correction entry are applied in the entry's table order, each
  to the series as the adjustments before it left it. For every site, year and table:
  the state after the first \<open>k + 1\<close> statements of the entry is statement \<open>k\<close> applied to
  the state after the first \<open>k\<close>, and the series that is baselined is the one the whole
  entry leaves; every statement of every entry reads the current series; an assignment
  under a mask sets, an offset subtracts or adds, and \<open>assign_nans\<close> blanks, exactly the
  samples whose day and current value satisfy the mask; and the series that
  \<open>DPT_processing\<close> returns is that series, baselined. In the KAN\_L 2009 entry the rule for
  missing samples fills with -3.5 the samples from day 260 on that the preceding
  value-predicated exclusion made missing (and those missing before), though they are not
  missing in the raw series. In the KAN\_L 2010 entry the same holds with -5.45, and the
  offset of -0.1 from day 280 on, which stands between the exclusion and the fill, moves
  the samples that are not excluded and leaves the filled ones at exactly -5.45. In the
  THU\_U 2016 entry the exclusion of values below -0.5 reads the values already raised by
  2.5 from day 204 on.
\<close>

theorem adjustments_in_table_order_on_current_series:
  "(\<forall>k<length (correction site year).
      run (take (Suc k) (correction site year)) (init_locals df)
        = (correction site year ! k) (run (take k (correction site year)) (init_locals df))) \<and>
   z (table_state site df year) = z (run (correction site year) (init_locals df)) \<and>
   (\<forall>f\<in>set (correction site year). reads_current_series f) \<and>
   (length (z s) = length (doy s) \<and> i < length (z s) \<longrightarrow>
      z (zset P c s) ! i = (if P (doy s ! i) (z s ! i) then c else z s ! i) \<and>
      z (zsub P x s) ! i
        = (if P (doy s ! i) (z s ! i) then vsub (z s ! i) (Some x) else z s ! i) \<and>
      z (zadd P x s) ! i
        = (if P (doy s ! i) (z s ! i) then vadd (z s ! i) (Some x) else z s ! i) \<and>
      z (assign_nans (DayInt n) s) ! i = (if doy s ! i = n then None else z s ! i) \<and>
      z (assign_nans (DayList ns) s) ! i = (if doy s ! i \<in> set ns then None else z s ! i)) \<and>
   (j < length df \<longrightarrow>
      (let d = DayOfYear (df ! j); v = DepthPressureTransducer_Cor (df ! j)
       in z (table_state ''KAN_L'' df 2009) ! j
            = (if d = 276 then None
               else if d \<ge> 260 \<and> (v = None \<or> v_ge v (-3.2)) then Some (-3.5)
               else if d \<ge> 250 \<and> v_ge v (-3.2) then None
               else v) \<and>
          z (table_state ''KAN_L'' df 2010) ! j
            = (if d = 136 \<or> d = 284 then None
               else if d \<ge> 260 \<and> (v = None \<or> v_ge v (-5.1)) then Some (-5.45)
               else if d \<ge> 280 then vsub v (Some 0.1)
               else v) \<and>
          z (table_state ''THU_U'' df 2016) ! j
            = (if d = 203 then None
               else if v_lt (if d \<ge> 204 then vadd v (Some 2.5) else v) (-0.5) then None
               else if d \<ge> 204 then vadd v (Some 2.5)
               else v))) \<and>
   (DPT_processing site df year = Inr (zs, al, flag, bid, af) \<longrightarrow>
      zs = baseline (map DayOfYear df) (z (run (correction site year) (init_locals df)))
             (if flag = 3 then IAO (table_state site df year) else None))"
proof -
  note order = order_part[of site year df]
    and whole = table_state_z[of site df year]
    and reads = reads_part[of site year]
    and kinds = kinds_part[of s i P c x n ns]
    and examples = examples_part[of j df]
    and returned = returned_part[of site df year zs al flag bid af]
  from order whole reads kinds examples returned show ?thesis
    by - (intro conjI; assumption)
qed

text \<open>KAN\_L 2010 on three samples: after the exclusion the second is missing, the offset
  then moves the third to -6.1, and the fill sets the second to -5.45. In the THU\_U
  2016 entry the raw -3 of day 290 is kept as -0.5.\<close>

theorem adjustments_in_table_order_on_current_series_witness:
  "run (take (Suc 1) (correction ''KAN_L'' 2010)) (init_locals 
     [\<lparr>Year = 2010, DayOfYear = 100, DepthPressureTransducer_Cor = Some 0,
        Albedo_theta_lt_70d = Some 0.5, AirTemperature = Some 1, HeightSensorBoom = Some 2\<rparr>,
      \<lparr>Year = 2010, DayOfYear = 290, DepthPressureTransducer_Cor = Some (-3),
        Albedo_theta_lt_70d = Some 0.5, AirTemperature = Some 1, HeightSensorBoom = Some 2\<rparr>,
      \<lparr>Year = 2010, DayOfYear = 285, DepthPressureTransducer_Cor = Some (-6),
        Albedo_theta_lt_70d = Some 0.5, AirTemperature = Some 1, HeightSensorBoom = Some 2\<rparr>])
     = (correction ''KAN_L'' 2010 ! 1) (run (take 1 (correction ''KAN_L'' 2010)) (init_locals 
     [\<lparr>Year = 2010, DayOfYear = 100, DepthPressureTransducer_Cor = Some 0,
        Albedo_theta_lt_70d = Some 0.5, AirTemperature = Some 1, HeightSensorBoom = Some 2\<rparr>,
      \<lparr>Year = 2010, DayOfYear = 290, DepthPressureTransducer_Cor = Some (-3),
        Albedo_theta_lt_70d = Some 0.5, AirTemperature = Some 1, HeightSensorBoom = Some 2\<rparr>,
      \<lparr>Year = 2010, DayOfYear = 285, DepthPressureTransducer_Cor = Some (-6),
        Albedo_theta_lt_70d = Some 0.5, AirTemperature = Some 1, HeightSensorBoom = Some 2\<rparr>])) \<and>
   run (take 1 (correction ''KAN_L'' 2010)) (init_locals 
     [\<lparr>Year = 2010, DayOfYear = 100, DepthPressureTransducer_Cor = Some 0,
        Albedo_theta_lt_70d = Some 0.5, AirTemperature = Some 1, HeightSensorBoom = Some 2\<rparr>,
      \<lparr>Year = 2010, DayOfYear = 290, DepthPressureTransducer_Cor = Some (-3),
        Albedo_theta_lt_70d = Some 0.5, AirTemperature = Some 1, HeightSensorBoom = Some 2\<rparr>,
      \<lparr>Year = 2010, DayOfYear = 285, DepthPressureTransducer_Cor = Some (-6),
        Albedo_theta_lt_70d = Some 0.5, AirTemperature = Some 1, HeightSensorBoom = Some 2\<rparr>]) = \<lparr>z = [Some 0, None, Some (-6)], doy = [100, 290, 285], DPT_flag = None, IAO = None,
         albedo_flag = 1, no_proc = 0\<rparr> \<and>
   reads_current_series (correction ''KAN_L'' 2010 ! 1) \<and>
   z (zsub (\<lambda>d v. d \<ge> 280) 0.1 \<lparr>z = [Some 0, None, Some (-6)], doy = [100, 290, 285], DPT_flag = None, IAO = None,
         albedo_flag = 1, no_proc = 0\<rparr>) ! 2 = Some (-6.1) \<and>
   z (table_state ''KAN_L'' 
     [\<lparr>Year = 2010, DayOfYear = 100, DepthPressureTransducer_Cor = Some 0,
        Albedo_theta_lt_70d = Some 0.5, AirTemperature = Some 1, HeightSensorBoom = Some 2\<rparr>,
      \<lparr>Year = 2010, DayOfYear = 290, DepthPressureTransducer_Cor = Some (-3),
        Albedo_theta_lt_70d = Some 0.5, AirTemperature = Some 1, HeightSensorBoom = Some 2\<rparr>,
      \<lparr>Year = 2010, DayOfYear = 285, DepthPressureTransducer_Cor = Some (-6),
        Albedo_theta_lt_70d = Some 0.5, AirTemperature = Some 1, HeightSensorBoom = Some 2\<rparr>] 2009) ! 1 = Some (-3.5) \<and>
   z (table_state ''KAN_L'' 
     [\<lparr>Year = 2010, DayOfYear = 100, DepthPressureTransducer_Cor = Some 0,
        Albedo_theta_lt_70d = Some 0.5, AirTemperature = Some 1, HeightSensorBoom = Some 2\<rparr>,
      \<lparr>Year = 2010, DayOfYear = 290, DepthPressureTransducer_Cor = Some (-3),
        Albedo_theta_lt_70d = Some 0.5, AirTemperature = Some 1, HeightSensorBoom = Some 2\<rparr>,
      \<lparr>Year = 2010, DayOfYear = 285, DepthPressureTransducer_Cor = Some (-6),
        Albedo_theta_lt_70d = Some 0.5, AirTemperature = Some 1, HeightSensorBoom = Some 2\<rparr>] 2010) ! 1 = Some (-5.45) \<and>
   z (table_state ''KAN_L'' 
     [\<lparr>Year = 2010, DayOfYear = 100, DepthPressureTransducer_Cor = Some 0,
        Albedo_theta_lt_70d = Some 0.5, AirTemperature = Some 1, HeightSensorBoom = Some 2\<rparr>,
      \<lparr>Year = 2010, DayOfYear = 290, DepthPressureTransducer_Cor = Some (-3),
        Albedo_theta_lt_70d = Some 0.5, AirTemperature = Some 1, HeightSensorBoom = Some 2\<rparr>,
      \<lparr>Year = 2010, DayOfYear = 285, DepthPressureTransducer_Cor = Some (-6),
        Albedo_theta_lt_70d = Some 0.5, AirTemperature = Some 1, HeightSensorBoom = Some 2\<rparr>] 2010) ! 2 = Some (-6.1) \<and>
   z (table_state ''THU_U'' 
     [\<lparr>Year = 2010, DayOfYear = 100, DepthPressureTransducer_Cor = Some 0,
        Albedo_theta_lt_70d = Some 0.5, AirTemperature = Some 1, HeightSensorBoom = Some 2\<rparr>,
      \<lparr>Year = 2010, DayOfYear = 290, DepthPressureTransducer_Cor = Some (-3),
        Albedo_theta_lt_70d = Some 0.5, AirTemperature = Some 1, HeightSensorBoom = Some 2\<rparr>,
      \<lparr>Year = 2010, DayOfYear = 285, DepthPressureTransducer_Cor = Some (-6),
        Albedo_theta_lt_70d = Some 0.5, AirTemperature = Some 1, HeightSensorBoom = Some 2\<rparr>] 2016) ! 1 = Some (-0.5) \<and>
   DPT_processing ''KAN_L'' 
     [\<lparr>Year = 2010, DayOfYear = 100, DepthPressureTransducer_Cor = Some 0,
        Albedo_theta_lt_70d = Some 0.5, AirTemperature = Some 1, HeightSensorBoom = Some 2\<rparr>,
      \<lparr>Year = 2010, DayOfYear = 290, DepthPressureTransducer_Cor = Some (-3),
        Albedo_theta_lt_70d = Some 0.5, AirTemperature = Some 1, HeightSensorBoom = Some 2\<rparr>,
      \<lparr>Year = 2010, DayOfYear = 285, DepthPressureTransducer_Cor = Some (-6),
        Albedo_theta_lt_70d = Some 0.5, AirTemperature = Some 1, HeightSensorBoom = Some 2\<rparr>] 2010
     = Inr ([Some 0, Some (-5.45), Some (-6.1)], [Some 0.534, Some 0.534, Some 0.534], 3, Some 290, 1) \<and>
   [Some 0, Some (-5.45), Some (-6.1)]
     = baseline (map DayOfYear 
     [\<lparr>Year = 2010, DayOfYear = 100, DepthPressureTransducer_Cor = Some 0,
        Albedo_theta_lt_70d = Some 0.5, AirTemperature = Some 1, HeightSensorBoom = Some 2\<rparr>,
      \<lparr>Year = 2010, DayOfYear = 290, DepthPressureTransducer_Cor = Some (-3),
        Albedo_theta_lt_70d = Some 0.5, AirTemperature = Some 1, HeightSensorBoom = Some 2\<rparr>,
      \<lparr>Year = 2010, DayOfYear = 285, DepthPressureTransducer_Cor = Some (-6),
        Albedo_theta_lt_70d = Some 0.5, AirTemperature = Some 1, HeightSensorBoom = Some 2\<rparr>]) (z (run (correction ''KAN_L'' 2010) (init_locals 
     [\<lparr>Year = 2010, DayOfYear = 100, DepthPressureTransducer_Cor = Some 0,
        Albedo_theta_lt_70d = Some 0.5, AirTemperature = Some 1, HeightSensorBoom = Some 2\<rparr>,
      \<lparr>Year = 2010, DayOfYear = 290, DepthPressureTransducer_Cor = Some (-3),
        Albedo_theta_lt_70d = Some 0.5, AirTemperature = Some 1, HeightSensorBoom = Some 2\<rparr>,
      \<lparr>Year = 2010, DayOfYear = 285, DepthPressureTransducer_Cor = Some (-6),
        Albedo_theta_lt_70d = Some 0.5, AirTemperature = Some 1, HeightSensorBoom = Some 2\<rparr>]))) (Some 121)"
proof -
  let ?df = "[\<lparr>Year = 2010, DayOfYear = 100, DepthPressureTransducer_Cor = Some 0,
        Albedo_theta_lt_70d = Some 0.5, AirTemperature = Some 1, HeightSensorBoom = Some 2\<rparr>,
      \<lparr>Year = 2010, DayOfYear = 290, DepthPressureTransducer_Cor = Some (-3),
        Albedo_theta_lt_70d = Some 0.5, AirTemperature = Some 1, HeightSensorBoom = Some 2\<rparr>,
      \<lparr>Year = 2010, DayOfYear = 285, DepthPressureTransducer_Cor = Some (-6),
        Albedo_theta_lt_70d = Some 0.5, AirTemperature = Some 1, HeightSensorBoom = Some 2\<rparr>]"
  let ?st = "\<lparr>z = [Some 0, None, Some (-6)], doy = [100, 290, 285], DPT_flag = None, IAO = None,
         albedo_flag = 1, no_proc = 0\<rparr>"
  note th1 = adjustments_in_table_order_on_current_series
    [where site = "''KAN_L''" and year = 2010 and df = ?df and s = ?st and i = 2
       and P = "\<lambda>d v. d \<ge> 280" and x = "0.1" and j = 1
       and zs = "[Some 0, Some (-5.45), Some (-6.1)]"
       and al = "[Some 0.534, Some 0.534, Some 0.534]" and flag = 3 and bid = "Some 290" and af = 1]
  note th2 = adjustments_in_table_order_on_current_series
    [where site = "''KAN_L''" and year = 2010 and df = ?df and j = 2]
  have k: "1 < length (correction ''KAN_L'' 2010)"
    by (simp add: correction_def corr_KAN_L_def)
  have m: "correction ''KAN_L'' 2010 ! 1 \<in> set (correction ''KAN_L'' 2010)"
    using k by (rule nth_mem)
  have w1: "run (take (Suc 1) (correction ''KAN_L'' 2010)) (init_locals ?df)
     = (correction ''KAN_L'' 2010 ! 1) (run (take 1 (correction ''KAN_L'' 2010)) (init_locals ?df))"
    using th1[THEN conjunct1] k by blast
  have w1a: "run (take 1 (correction ''KAN_L'' 2010)) (init_locals ?df) = ?st"
    by (simp add: correction_def corr_KAN_L_def init_locals_def stmt_simps assign_where_def
        v_ge_def)
  have w2: "reads_current_series (correction ''KAN_L'' 2010 ! 1)"
    using th1[THEN conjunct2, THEN conjunct2, THEN conjunct1] m by blast
  have l: "length (z ?st) = length (doy ?st) \<and> 2 < length (z ?st)" by simp
  have w3: "z (zsub (\<lambda>d v. d \<ge> 280) 0.1 ?st) ! 2 = Some (-6.1)"
    using th1[THEN conjunct2, THEN conjunct2, THEN conjunct2, THEN conjunct1] l
    by (simp add: vsub_def)
  have j1: "(1::nat) < length ?df" and j2: "(2::nat) < length ?df" by simp_all
  from th1[THEN conjunct2, THEN conjunct2, THEN conjunct2, THEN conjunct2, THEN conjunct1] j1
  have w4: "z (table_state ''KAN_L'' ?df 2009) ! 1 = Some (-3.5)"
    and w5: "z (table_state ''KAN_L'' ?df 2010) ! 1 = Some (-5.45)"
    and w7: "z (table_state ''THU_U'' ?df 2016) ! 1 = Some (-0.5)"
    by (simp_all add: Let_def v_ge_def v_lt_def vadd_def)
  from th2[THEN conjunct2, THEN conjunct2, THEN conjunct2, THEN conjunct2, THEN conjunct1] j2
  have w6: "z (table_state ''KAN_L'' ?df 2010) ! 2 = Some (-6.1)"
    by (simp add: Let_def v_ge_def vsub_def)
  have w8: "DPT_processing ''KAN_L'' ?df 2010
     = Inr ([Some 0, Some (-5.45), Some (-6.1)], [Some 0.534, Some 0.534, Some 0.534], 3, Some 290, 1)"
    by (simp add: DPT_eval corr_KAN_L_def)
  have i: "IAO (table_state ''KAN_L'' ?df 2010) = Some 121"
    by (simp add: table_state_def correction_def corr_KAN_L_def init_locals_def Let_def stmt_simps)
  from th1[THEN conjunct2, THEN conjunct2, THEN conjunct2, THEN conjunct2, THEN conjunct2] w8 i
  have w9: "[Some 0, Some (-5.45), Some (-6.1)]
     = baseline (map DayOfYear ?df) (z (run (correction ''KAN_L'' 2010) (init_locals ?df))) (Some 121)"
    by simp
  show ?thesis
    by (intro conjI w1 w1a w2 w3 w4 w5 w6 w7 w8 w9)
qed

section \<open>The processed table, year by year\<close>

lemma year_frame_Year:
  assumes "r \<in> set (year_frame b (filter (\<lambda>x. Year x = y) df) res)"
  shows "p_Year r = y"
proof -
  obtain zs al f bd af where res: "res = (zs, al, f, bd, af)" by (cases res) auto
  from assms obtain raw zv a where
    m: "(raw, zv, a) \<in> set (zip (filter (\<lambda>x. Year x = y) df) (zip zs al))"
    and r: "p_Year r = Year raw"
    unfolding year_frame_def res by auto
  from m have "raw \<in> set (filter (\<lambda>x. Year x = y) df)" by (rule set_zip_leftD)
  with r show ?thesis by simp
qed

lemma filter_year_frame:
  "filter (\<lambda>r. p_Year r = y') (year_frame b (filter (\<lambda>x. Year x = y) df) res)
   = (if y' = y then year_frame b (filter (\<lambda>x. Year x = y) df) res else [])"
proof (cases "y' = y")
  case True
  then show ?thesis using year_frame_Year[of _ b y df res] by (simp add: filter_id_conv)
next
  case False
  then show ?thesis using year_frame_Year[of _ b y df res] by (auto simp: filter_empty_conv)
qed

lemma frames_inv_first:
  assumes "DPT_processing s (filter (\<lambda>r. Year r = y) df) y = Inr res"
  shows "frames_inv s df y [y]
           \<lparr>rows = year_frame True (filter (\<lambda>r. Year r = y) df) res,
            has_Height_sensor_boom_m = False\<rparr>"
  using assms year_frame_Year[of _ True y df res]
  by (simp add: frames_inv_def filter_year_frame)

lemma frames_inv_append:
  assumes inv: "frames_inv s df y0 D t0"
    and e: "DPT_processing s (filter (\<lambda>r. Year r = y) df) y = Inr res"
    and y: "y \<notin> set D" and y0: "y0 \<in> set D"
  shows "frames_inv s df y0 (D @ [y])
           \<lparr>rows = rows t0 @ year_frame False (filter (\<lambda>r. Year r = y) df) res,
            has_Height_sensor_boom_m = True\<rparr>"
proof -
  from y y0 have ne: "y \<noteq> y0" by auto
  from y0 have Dne: "D \<noteq> []" by auto
  have a: "\<forall>r\<in>set (rows t0 @ year_frame False (filter (\<lambda>r. Year r = y) df) res).
             p_Year r \<in> set (D @ [y])"
    using inv year_frame_Year[of _ False y df res] by (auto simp: frames_inv_def)
  have old: "filter (\<lambda>r. p_Year r = y) (rows t0) = []"
    using inv y by (auto simp: frames_inv_def filter_empty_conv)
  have b: "\<exists>res'. DPT_processing s (filter (\<lambda>r. Year r = y') df) y' = Inr res' \<and>
             filter (\<lambda>r. p_Year r = y')
               (rows t0 @ year_frame False (filter (\<lambda>r. Year r = y) df) res)
             = year_frame (y' = y0) (filter (\<lambda>r. Year r = y') df) res'"
    if "y' \<in> set (D @ [y])" for y'
  proof (cases "y' = y")
    case True
    with e old ne show ?thesis by (simp add: filter_year_frame)
  next
    case False
    with that have "y' \<in> set D" by simp
    with inv obtain res' where
      "DPT_processing s (filter (\<lambda>r. Year r = y') df) y' = Inr res'"
      "filter (\<lambda>r. p_Year r = y') (rows t0)
         = year_frame (y' = y0) (filter (\<lambda>r. Year r = y') df) res'"
      unfolding frames_inv_def by blast
    with False show ?thesis by (simp add: filter_year_frame)
  qed
  from Dne have c: "1 < length (D @ [y])" by (cases D) auto
  from a b c show ?thesis unfolding frames_inv_def by simp
qed

lemma process_years_frames:
  assumes "process_years s df i ys acc = Inr res"
    and "distinct (D @ ys)" and "i = length D" and "y0 = hd (D @ ys)"
    and "D \<noteq> [] \<Longrightarrow> \<exists>t0. acc = Some t0 \<and> frames_inv s df y0 D t0"
    and "D @ ys \<noteq> []"
  shows "\<exists>t. res = Some t \<and> frames_inv s df y0 (D @ ys) t"
  using assms
proof (induction ys arbitrary: i acc D)
  case Nil
  then show ?case by auto
next
  case (Cons y ys)
  let ?dfy = "filter (\<lambda>r. Year r = y) df"
  from Cons.prems(1) obtain r where e: "DPT_processing s ?dfy y = Inr r"
    by (cases "DPT_processing s ?dfy y") (auto simp: Let_def)
  show ?case
  proof (cases "D = []")
    case True
    with Cons.prems have i0: "i = 0" and y0: "y0 = y" by auto
    let ?t1 = "\<lparr>rows = year_frame True ?dfy r, has_Height_sensor_boom_m = False\<rparr>"
    from Cons.prems(1) e i0 have p: "process_years s df (Suc 0) ys (Some ?t1) = Inr res"
      by (simp add: Let_def)
    have inv: "frames_inv s df y0 [y] ?t1" unfolding y0 by (rule frames_inv_first[OF e])
    have "\<exists>t. res = Some t \<and> frames_inv s df y0 ([y] @ ys) t"
    proof (rule Cons.IH[OF p])
      show "distinct ([y] @ ys)" using Cons.prems(2) True by simp
      show "Suc 0 = length [y]" by simp
      show "y0 = hd ([y] @ ys)" using y0 by simp
      show "\<exists>t0. Some ?t1 = Some t0 \<and> frames_inv s df y0 [y] t0" using inv by simp
      show "[y] @ ys \<noteq> []" by simp
    qed
    with True show ?thesis by simp
  next
    case False
    with Cons.prems obtain t0 where acc: "acc = Some t0" and inv0: "frames_inv s df y0 D t0"
      by blast
    from False Cons.prems have ipos: "i \<noteq> 0" by auto
    from False Cons.prems(4) have y0D: "y0 \<in> set D" by (cases D) auto
    from Cons.prems(2) have ynD: "y \<notin> set D" by auto
    let ?t1 = "\<lparr>rows = rows t0 @ year_frame False ?dfy r, has_Height_sensor_boom_m = True\<rparr>"
    from Cons.prems(1) e ipos acc have p: "process_years s df (Suc i) ys (Some ?t1) = Inr res"
      by (simp add: Let_def)
    have inv: "frames_inv s df y0 (D @ [y]) ?t1"
      by (rule frames_inv_append[OF inv0 e ynD y0D])
    have "\<exists>t. res = Some t \<and> frames_inv s df y0 ((D @ [y]) @ ys) t"
    proof (rule Cons.IH[OF p])
      show "distinct ((D @ [y]) @ ys)" using Cons.prems(2) by simp
      show "Suc i = length (D @ [y])" using Cons.prems(3) by simp
      show "y0 = hd ((D @ [y]) @ ys)" using Cons.prems(4) False by simp
      show "\<exists>t0. Some ?t1 = Some t0 \<and> frames_inv s df y0 (D @ [y]) t0" using inv by simp
      show "(D @ [y]) @ ys \<noteq> []" by simp
    qed
    then show ?thesis by simp
  qed
qed

lemma set_Counter_keys: "set (Counter_keys xs) = set xs"
  by (induction xs rule: Counter_keys.induct) auto

lemma distinct_Counter_keys: "distinct (Counter_keys xs)"
  by (induction xs rule: Counter_keys.induct) (auto simp: set_Counter_keys)

lemma hd_Counter_keys: "xs \<noteq> [] \<Longrightarrow> hd (Counter_keys xs) = hd xs"
  by (cases xs) auto

lemma BIC_processing_All_frames:
  assumes "BIC_processing s All df = Inr t"
  shows "df \<noteq> [] \<and> frames_inv s df (Year (hd df)) (Counter_keys (map Year df)) t"
proof -
  let ?ys = "Counter_keys (map Year df)"
  from assms obtain res where p: "process_years s df 0 ?ys None = Inr res"
    by (cases "process_years s df 0 ?ys None") (auto simp: BIC_processing_def Let_def)
  with assms have res: "res = Some t"
    by (cases res) (auto simp: BIC_processing_def Let_def)
  have ne: "df \<noteq> []"
  proof
    assume "df = []"
    with p res show False by simp
  qed
  then have ysne: "?ys \<noteq> []" by (cases df) auto
  have "\<exists>t'. res = Some t' \<and> frames_inv s df (Year (hd df)) ([] @ ?ys) t'"
  proof (rule process_years_frames[OF p])
    show "distinct ([] @ ?ys)" by (simp add: distinct_Counter_keys)
    show "0 = length ([]::int list)" by simp
    show "Year (hd df) = hd ([] @ ?ys)" using ne by (cases df) auto
    show "[] @ ?ys \<noteq> []" using ysne by simp
  qed simp
  with res ne show ?thesis by simp
qed


section \<open>Where the rows of the composite come from\<close>

lemma year_frame_flags:
  assumes "r \<in> set (year_frame b df_y (zs, al, f, bd, af))"
  shows "p_DPT_flag r = f \<and> p_BID r = bd \<and> p_Albedo_flag r = af"
  using assms unfolding year_frame_def by auto

lemma year_frame_first_boom:
  assumes "r \<in> set (year_frame True df_y res)"
  shows "p_Height_sensor_boom_m r = None"
  using assms unfolding year_frame_def by (cases res) auto

lemma year_frame_later_boom:
  assumes "r \<in> set (year_frame False df_y res)"
  shows "p_HeightSensorBoom_m r = None"
  using assms unfolding year_frame_def by (cases res) auto

lemma length_padded:
  "length w \<le> n \<Longrightarrow> length (padded n w col) = n"
  by (simp add: padded_def)

lemma length_boom_height: "length (boom_height dt h) = length h"
  by (simp add: boom_height_def Let_def)

lemma year_step_Some:
  assumes "year_step dt s t y = Inr (Some e)"
  shows "\<exists>r0 rest b.
           filter (\<lambda>r. p_Year r = y) (rows t) = r0 # rest \<and>
           p_DPT_flag r0 = 3 \<and> p_Albedo_flag r0 = 1 \<and> p_BID r0 = Some b \<and>
           has_Height_sensor_boom_m t \<and>
           (let w = filter (\<lambda>r. p_DOY r \<ge> b - int dt \<and> p_DOY r \<le> b + int dt) (r0 # rest)
            in length w \<le> 2 * dt + 1 \<and>
               e = \<lparr>label = (s, y),
                    air_row = padded (2 * dt + 1) w p_Air_temperature_C,
                    ice_row = padded (2 * dt + 1) w p_DPT_proc,
                    snow_row = boom_height dt (padded (2 * dt + 1) w p_Height_sensor_boom_m),
                    albedo_row = padded (2 * dt + 1) w p_Albedo_theta_inf_70d\<rparr>)"
proof (cases "filter (\<lambda>r. p_Year r = y) (rows t)")
  case Nil
  with assms show ?thesis by (simp add: year_step_def)
next
  case (Cons r0 rest)
  from assms Cons have q: "p_DPT_flag r0 = 3 \<and> p_Albedo_flag r0 = 1"
    by (simp add: year_step_def Let_def split: if_splits)
  with assms Cons obtain b where b: "p_BID r0 = Some b"
    by (cases "p_BID r0") (simp_all add: year_step_def Let_def)
  from assms Cons q b show ?thesis
    by (auto simp: year_step_def Let_def split: if_splits)
qed

lemma year_loop_entries:
  "year_loop dt s t ys = Inr es \<Longrightarrow> e \<in> set es \<Longrightarrow>
   \<exists>y\<in>set ys. year_step dt s t y = Inr (Some e)"
proof (induction ys arbitrary: es)
  case Nil
  then show ?case by simp
next
  case (Cons y ys)
  from Cons.prems(1) obtain eo es' where
    a: "year_step dt s t y = Inr eo" and b: "year_loop dt s t ys = Inr es'"
    and c: "es = (case eo of None \<Rightarrow> [] | Some sy \<Rightarrow> [sy]) @ es'"
    by (auto split: sum.splits)
  show ?case
  proof (cases "e \<in> set es'")
    case True
    from Cons.IH[OF b True] show ?thesis by auto
  next
    case False
    with Cons.prems(2) c have "eo = Some e" by (cases eo) auto
    with a show ?thesis by simp
  qed
qed

lemma site_step_entries:
  assumes "site_step dt files s = Inr es" and "e \<in> set es"
  shows "\<exists>df t y. map_of files s = Some df \<and> df \<noteq> [] \<and> BIC_processing s All df = Inr t \<and>
                  year_step dt s t y = Inr (Some e)"
proof -
  from assms(1) obtain df where f: "map_of files s = Some df"
    by (cases "map_of files s") (auto simp: site_step_def)
  from assms(1) f have ne: "df \<noteq> []"
    by (auto simp: site_step_def load_data_all_def split: if_splits)
  from assms(1) f ne obtain t where t: "BIC_processing s All df = Inr t"
    by (cases "BIC_processing s All df") (auto simp: site_step_def load_data_all_def)
  from assms(1) f ne t have "year_loop dt s t (Counter_keys (map p_Year (rows t))) = Inr es"
    by (simp add: site_step_def load_data_all_def)
  from year_loop_entries[OF this assms(2)] f ne t show ?thesis by blast
qed

lemma site_loop_entries:
  "site_loop dt files sites = Inr es \<Longrightarrow> e \<in> set es \<Longrightarrow>
   \<exists>s df t y. map_of files s = Some df \<and> df \<noteq> [] \<and> BIC_processing s All df = Inr t \<and>
              year_step dt s t y = Inr (Some e)"
proof (induction sites arbitrary: es)
  case Nil
  then show ?case by simp
next
  case (Cons s sites)
  show ?case
  proof (cases "s = ''CEN'' \<or> s = ''EGP'' \<or> s = ''KAN_U''")
    case True
    with Cons.prems(1) have "site_loop dt files sites = Inr es" by auto
    from Cons.IH[OF this Cons.prems(2)] show ?thesis .
  next
    case False
    with Cons.prems(1) obtain es1 es2 where
      a: "site_step dt files s = Inr es1" and b: "site_loop dt files sites = Inr es2"
      and c: "es = es1 @ es2"
      by (auto split: sum.splits)
    show ?thesis
    proof (cases "e \<in> set es1")
      case True
      from site_step_entries[OF a True] show ?thesis by blast
    next
      case False
      with Cons.prems(2) c have "e \<in> set es2" by simp
      from Cons.IH[OF b this] show ?thesis .
    qed
  qed
qed

lemma BIC_composite_entries:
  assumes "BIC_composite files dt = Inr c"
  shows "\<exists>es. site_loop dt files (Counter_keys (map fst files)) = Inr es \<and> es \<noteq> [] \<and>
           row_index c = map label es \<and> column_labels c = [- int dt .. int dt] \<and>
           air_temperature_degrees c = map air_row es \<and>
           ice_ablation_meters c = map ice_row es \<and>
           snow_height_meters c = map snow_row es \<and>
           albedo_unitless c = map albedo_row es"
  using assms unfolding BIC_composite_def
  by (cases "site_loop dt files (Counter_keys (map fst files))") (auto split: if_splits)

text \<open>An entry of the composite comes from a station-year that DPT_processing rated.\<close>

lemma entry_qualifies:
  assumes f: "map_of files s = Some df" and t: "BIC_processing s All df = Inr t"
    and e: "year_step dt s t y = Inr (Some e)"
  shows "\<exists>zs al b. DPT_processing s (filter (\<lambda>r. Year r = y) df) y = Inr (zs, al, 3, Some b, 1)"
proof -
  from year_step_Some[OF e] obtain r0 rest b where
    fr: "filter (\<lambda>r. p_Year r = y) (rows t) = r0 # rest"
    and q: "p_DPT_flag r0 = 3" "p_Albedo_flag r0 = 1" "p_BID r0 = Some b"
    by blast
  from fr have "r0 \<in> set (filter (\<lambda>r. p_Year r = y) (rows t))" by simp
  then have r0: "r0 \<in> set (rows t)" and yr: "p_Year r0 = y" by auto
  from BIC_processing_All_frames[OF t]
  have inv: "frames_inv s df (Year (hd df)) (Counter_keys (map Year df)) t" by simp
  with r0 yr have "y \<in> set (Counter_keys (map Year df))" by (auto simp: frames_inv_def)
  with inv obtain res where
    d: "DPT_processing s (filter (\<lambda>r. Year r = y) df) y = Inr res"
    and fy: "filter (\<lambda>r. p_Year r = y) (rows t)
              = year_frame (y = Year (hd df)) (filter (\<lambda>r. Year r = y) df) res"
    unfolding frames_inv_def by blast
  obtain zs al fl bd af where res: "res = (zs, al, fl, bd, af)" by (cases res) auto
  from fr fy have "r0 \<in> set (year_frame (y = Year (hd df)) (filter (\<lambda>r. Year r = y) df) res)"
    by simp
  from year_frame_flags[OF this[unfolded res]] q have "fl = 3" "bd = Some b" "af = 1" by auto
  with d res show ?thesis by simp
qed

section \<open>Station-years in the composite\<close>

text \<open>
  C4. In the composite that \<open>BIC_composite\<close> returns, every matrix has one row per label
  of the row index, and every label is a station-year for which \<open>DPT_processing\<close>, on
  that year's rows of the station's file, returned confidence flag 3, albedo flag 1 and
  a detected bare ice day. A station-year with an invalid albedo flag or a missing bare
  ice day is therefore never in the row index.
\<close>

theorem composite_rows_qualify:
  assumes "BIC_composite files dt = Inr c"
  shows "length (air_temperature_degrees c) = length (row_index c) \<and>
         length (ice_ablation_meters c) = length (row_index c) \<and>
         length (snow_height_meters c) = length (row_index c) \<and>
         length (albedo_unitless c) = length (row_index c) \<and>
         (\<forall>(s, y) \<in> set (row_index c).
            \<exists>df zs al b. map_of files s = Some df \<and>
              DPT_processing s (filter (\<lambda>r. Year r = y) df) y = Inr (zs, al, 3, Some b, 1))"
proof -
  from BIC_composite_entries[OF assms] obtain es where
    sl: "site_loop dt files (Counter_keys (map fst files)) = Inr es"
    and c: "row_index c = map label es" "air_temperature_degrees c = map air_row es"
      "ice_ablation_meters c = map ice_row es" "snow_height_meters c = map snow_row es"
      "albedo_unitless c = map albedo_row es"
    by blast
  have per: "\<exists>df zs al b. map_of files s = Some df \<and>
          DPT_processing s (filter (\<lambda>r. Year r = y) df) y = Inr (zs, al, 3, Some b, 1)"
    if "(s, y) \<in> set (row_index c)" for s y
  proof -
    from that c(1) obtain e where e: "e \<in> set es" and l: "label e = (s, y)" by auto
    from site_loop_entries[OF sl e] obtain s' df t y' where
      f: "map_of files s' = Some df" and t: "BIC_processing s' All df = Inr t"
      and ys: "year_step dt s' t y' = Inr (Some e)"
      by blast
    from year_step_Some[OF ys] have "label e = (s', y')" by (auto simp: Let_def)
    with l have "s' = s" "y' = y" by simp_all
    with entry_qualifies[OF f t ys] f show ?thesis by blast
  qed
  then have "\<forall>(s, y) \<in> set (row_index c).
            \<exists>df zs al b. map_of files s = Some df \<and>
              DPT_processing s (filter (\<lambda>r. Year r = y) df) y = Inr (zs, al, 3, Some b, 1)"
    by blast
  with c show ?thesis by simp
qed



section \<open>Evaluating BIC\_composite on concrete files\<close>

lemmas composite_eval = BIC_composite_def site_step_def load_data_all_def BIC_processing_def
  year_frame_def year_step_def padded_def boom_height_def upto.simps eval_nat_numeral


text \<open>KPC\_L with one row in 2012 (rated 1) and two rows in 2013 (rated 3, onset day 163):
  the station-year 2013 is the only row of the composite.\<close>

theorem composite_rows_qualify_witness:
  "BIC_composite
     [(''KPC_L'',
       [\<lparr>Year = 2012, DayOfYear = 100, DepthPressureTransducer_Cor = Some 5,
         Albedo_theta_lt_70d = Some 0.8, AirTemperature = Some (-3), HeightSensorBoom = Some 2.5\<rparr>,
        \<lparr>Year = 2013, DayOfYear = 160, DepthPressureTransducer_Cor = Some 3,
         Albedo_theta_lt_70d = Some 0.8, AirTemperature = Some 1, HeightSensorBoom = Some 2.6\<rparr>,
        \<lparr>Year = 2013, DayOfYear = 165, DepthPressureTransducer_Cor = Some 2,
         Albedo_theta_lt_70d = Some 0.6, AirTemperature = Some 2, HeightSensorBoom = Some 2.4\<rparr>])] 1
   = Inr \<lparr>row_index = [(''KPC_L'', 2013)], column_labels = [-1, 0, 1],
          air_temperature_degrees = [[Some 2, None, None]],
          ice_ablation_meters = [[Some (-1), None, None]],
          snow_height_meters = [[None, None, None]],
          albedo_unitless = [[Some 0.634, None, None]]\<rparr>
   \<and> (\<exists>zs al b. DPT_processing ''KPC_L''
          [\<lparr>Year = 2013, DayOfYear = 160, DepthPressureTransducer_Cor = Some 3,
            Albedo_theta_lt_70d = Some 0.8, AirTemperature = Some 1, HeightSensorBoom = Some 2.6\<rparr>,
           \<lparr>Year = 2013, DayOfYear = 165, DepthPressureTransducer_Cor = Some 2,
            Albedo_theta_lt_70d = Some 0.6, AirTemperature = Some 2, HeightSensorBoom = Some 2.4\<rparr>]
          2013 = Inr (zs, al, 3, Some b, 1))"
proof -
  let ?files = "[(''KPC_L'',
       [\<lparr>Year = 2012, DayOfYear = 100, DepthPressureTransducer_Cor = Some 5,
         Albedo_theta_lt_70d = Some 0.8, AirTemperature = Some (-3), HeightSensorBoom = Some 2.5\<rparr>,
        \<lparr>Year = 2013, DayOfYear = 160, DepthPressureTransducer_Cor = Some 3,
         Albedo_theta_lt_70d = Some 0.8, AirTemperature = Some 1, HeightSensorBoom = Some 2.6\<rparr>,
        \<lparr>Year = 2013, DayOfYear = 165, DepthPressureTransducer_Cor = Some 2,
         Albedo_theta_lt_70d = Some 0.6, AirTemperature = Some 2, HeightSensorBoom = Some 2.4\<rparr>])]"
  let ?c = "\<lparr>row_index = [(''KPC_L'', 2013)], column_labels = [-1, 0, 1],
          air_temperature_degrees = [[Some 2, None, None]],
          ice_ablation_meters = [[Some (-1), None, None]],
          snow_height_meters = [[None, None, None]],
          albedo_unitless = [[Some 0.634, None, None]]\<rparr>"
  have e: "BIC_composite ?files 1 = Inr ?c"
    by (simp add: composite_eval DPT_eval corr_KPC_L_def)
  from composite_rows_qualify[OF e]
  have "\<exists>df zs al b. map_of ?files ''KPC_L'' = Some df \<and>
          DPT_processing ''KPC_L'' (filter (\<lambda>r. Year r = 2013) df) 2013 = Inr (zs, al, 3, Some b, 1)"
    by simp
  then have "\<exists>zs al b. DPT_processing ''KPC_L''
          [\<lparr>Year = 2013, DayOfYear = 160, DepthPressureTransducer_Cor = Some 3,
            Albedo_theta_lt_70d = Some 0.8, AirTemperature = Some 1, HeightSensorBoom = Some 2.6\<rparr>,
           \<lparr>Year = 2013, DayOfYear = 165, DepthPressureTransducer_Cor = Some 2,
            Albedo_theta_lt_70d = Some 0.6, AirTemperature = Some 2, HeightSensorBoom = Some 2.4\<rparr>]
          2013 = Inr (zs, al, 3, Some b, 1)"
    by simp
  with e show ?thesis by blast
qed

section \<open>Shape of the composite\<close>

text \<open>Whenever a composite is returned, the column labels run from \<open>-dt\<close> to \<open>dt\<close> and
  every row of every matrix has \<open>2 * dt + 1\<close> entries.\<close>

lemma composite_shape:
  assumes "BIC_composite files dt = Inr c"
  shows "column_labels c = [- int dt .. int dt] \<and>
         (\<forall>row\<in>set (air_temperature_degrees c) \<union> set (ice_ablation_meters c) \<union>
                   set (snow_height_meters c) \<union> set (albedo_unitless c).
            length row = 2 * dt + 1)"
proof -
  from BIC_composite_entries[OF assms] obtain es where
    sl: "site_loop dt files (Counter_keys (map fst files)) = Inr es"
    and c: "column_labels c = [- int dt .. int dt]"
      "air_temperature_degrees c = map air_row es"
      "ice_ablation_meters c = map ice_row es" "snow_height_meters c = map snow_row es"
      "albedo_unitless c = map albedo_row es"
    by blast
  have "length (air_row e) = 2 * dt + 1 \<and> length (ice_row e) = 2 * dt + 1 \<and>
        length (snow_row e) = 2 * dt + 1 \<and> length (albedo_row e) = 2 * dt + 1"
    if "e \<in> set es" for e
  proof -
    from site_loop_entries[OF sl that] obtain s df t y where
      ys: "year_step dt s t y = Inr (Some e)" by blast
    from year_step_Some[OF ys] show ?thesis
      by (auto simp: Let_def length_padded length_boom_height)
  qed
  with c show ?thesis by auto
qed


text \<open>
  C5. Every row is expected to start at day BID - dt, the window being padded with
  missing values on the right only when it runs short. The code selects the rows with
  day in [BID - dt, BID + dt] and appends NaN rows at the end until there are
  \<open>2 * dt + 1\<close>; it never places a sample by its day. When the record holds no row for
  day BID - dt (it starts later, or has a gap), the samples shift to the left of the
  columns they belong to. KPC\_L 2013 below is a daily record that starts on day 162,
  with bare ice day 165; for \<open>dt = 4\<close> the window is [161, 169] and the value of day 165
  lands in the column labelled -1, day 162 in the column labelled -4.
\<close>

theorem composite_row_not_aligned_to_BID:
  "BIC_composite
     [(''KPC_L'',
       [\<lparr>Year = 2012, DayOfYear = 100, DepthPressureTransducer_Cor = Some 5,
         Albedo_theta_lt_70d = Some 0.8, AirTemperature = Some (-3), HeightSensorBoom = Some 2.5\<rparr>,
        \<lparr>Year = 2013, DayOfYear = 162, DepthPressureTransducer_Cor = Some 3,
         Albedo_theta_lt_70d = Some 0.8, AirTemperature = Some 1, HeightSensorBoom = Some 2.6\<rparr>,
        \<lparr>Year = 2013, DayOfYear = 163, DepthPressureTransducer_Cor = Some 3,
         Albedo_theta_lt_70d = Some 0.8, AirTemperature = Some 2, HeightSensorBoom = Some 2.6\<rparr>,
        \<lparr>Year = 2013, DayOfYear = 164, DepthPressureTransducer_Cor = Some 3,
         Albedo_theta_lt_70d = Some 0.7, AirTemperature = Some 3, HeightSensorBoom = Some 2.6\<rparr>,
        \<lparr>Year = 2013, DayOfYear = 165, DepthPressureTransducer_Cor = Some 2,
         Albedo_theta_lt_70d = Some 0.6, AirTemperature = Some 4, HeightSensorBoom = Some 2.4\<rparr>,
        \<lparr>Year = 2013, DayOfYear = 166, DepthPressureTransducer_Cor = Some 2,
         Albedo_theta_lt_70d = Some 0.5, AirTemperature = Some 5, HeightSensorBoom = Some 2.4\<rparr>])] 4
   = Inr \<lparr>row_index = [(''KPC_L'', 2013)],
          column_labels = [-4, -3, -2, -1, 0, 1, 2, 3, 4],
          air_temperature_degrees =
            [[Some 1, Some 2, Some 3, Some 4, Some 5, None, None, None, None]],
          ice_ablation_meters =
            [[Some 0, Some 0, Some 0, Some (-1), Some (-1), None, None, None, None]],
          snow_height_meters =
            [[None, None, None, None, None, None, None, None, None]],
          albedo_unitless =
            [[Some 0.834, Some 0.834, Some 0.734, Some 0.634, Some 0.534, None, None, None, None]]\<rparr>"
  by (simp add: composite_eval DPT_eval corr_KPC_L_def)


section \<open>Re-baselining of the boom height\<close>

lemma map_filter_vsub_from:
  "List.map_filter (\<lambda>v. v) (map (\<lambda>v. vsub (Some m) v) w)
   = map (\<lambda>x. m - x) (List.map_filter (\<lambda>v. v) w)"
  by (induction w) (auto simp: List.map_filter_def vsub_def split: option.splits)

lemma sum_list_shift_from:
  "sum_list (map (\<lambda>x. m - x) ys) = real (length ys) * (m::real) - sum_list ys"
  by (induction ys) (auto simp: algebra_simps)

lemma nanmean_reflect:
  assumes "nanmean w = Some m"
  shows "nanmean (map (\<lambda>v. vsub (Some m) v) w) = Some 0"
proof -
  let ?ys = "List.map_filter (\<lambda>v. v) w"
  from assms have ne: "?ys \<noteq> []" and m: "m = sum_list ?ys / real (length ?ys)"
    by (auto simp: nanmean_def Let_def split: if_splits)
  from ne have n0: "real (length ?ys) \<noteq> 0" by simp
  have "sum_list (map (\<lambda>x. m - x) ?ys) = 0"
    unfolding sum_list_shift_from m using n0 by simp
  then show ?thesis
    using ne by (simp add: nanmean_def Let_def map_filter_vsub_from)
qed

lemma nanmean_all_missing: "\<forall>v\<in>set w. v = None \<Longrightarrow> nanmean w = None"
  by (simp add: nanmean_def Let_def List.map_filter_def filter_empty_conv)

lemma vsub_from_NaN: "vsub None = (\<lambda>v. None)"
  by (rule ext) (simp add: vsub_def)

lemma boom_height_mean_zero:
  assumes "\<exists>v\<in>set (take 20 (drop (dt + 10) h)). v \<noteq> None"
  shows "nanmean (take 20 (drop (dt + 10) (boom_height dt h))) = Some 0"
proof -
  from nanmean_Some[OF assms] obtain m where m: "nanmean (take 20 (drop (dt + 10) h)) = Some m"
    by blast
  have "take 20 (drop (dt + 10) (boom_height dt h))
        = map (\<lambda>v. vsub (Some m) v) (take 20 (drop (dt + 10) h))"
    by (simp add: boom_height_def Let_def m take_map drop_map)
  with nanmean_reflect[OF m] show ?thesis by simp
qed

lemma boom_height_all_missing:
  assumes "\<forall>v\<in>set (take 20 (drop (dt + 10) h)). v = None"
  shows "boom_height dt h = replicate (length h) None"
  using nanmean_all_missing[OF assms]
  by (simp add: boom_height_def Let_def vsub_from_NaN map_replicate_const)

text \<open>
  C6, as the code has it. For every row of the snow-height matrix there is a qualifying
  station-year with bare ice day \<open>b\<close> whose padded window of \<open>Height_sensor_boom_m\<close> is
  \<open>h\<close>; the row is the mean of \<open>h\<close> over the positions \<open>dt + 10\<close> to \<open>dt + 29\<close> (the slice
  \<open>[dt + 10 : dt + 30]\<close>, days BID + 10 to BID + 29 of a window that holds every day from
  BID - dt) minus \<open>h\<close>. When one of these positions is not missing, the mean of the row
  over the same positions is 0; otherwise the whole row is missing.
\<close>

theorem snow_height_rebaselined:
  assumes "BIC_composite files dt = Inr c"
  shows "\<forall>row\<in>set (snow_height_meters c).
           \<exists>s y df t b h.
             map_of files s = Some df \<and> BIC_processing s All df = Inr t \<and>
             (\<exists>r\<in>set (rows t). p_Year r = y \<and> p_BID r = Some b) \<and>
             h = padded (2 * dt + 1)
                   (filter (\<lambda>r. b - int dt \<le> p_DOY r \<and> p_DOY r \<le> b + int dt)
                      (filter (\<lambda>r. p_Year r = y) (rows t)))
                   p_Height_sensor_boom_m \<and>
             length h = 2 * dt + 1 \<and>
             row = map (\<lambda>v. vsub (nanmean (take 20 (drop (dt + 10) h))) v) h \<and>
             (if \<exists>v\<in>set (take 20 (drop (dt + 10) h)). v \<noteq> None
              then nanmean (take 20 (drop (dt + 10) row)) = Some 0
              else row = replicate (2 * dt + 1) None)"
proof
  fix row
  assume row: "row \<in> set (snow_height_meters c)"
  from BIC_composite_entries[OF assms] obtain es where
    sl: "site_loop dt files (Counter_keys (map fst files)) = Inr es"
    and sn: "snow_height_meters c = map snow_row es"
    by blast
  from row sn obtain e where e: "e \<in> set es" and re: "row = snow_row e" by auto
  from site_loop_entries[OF sl e] obtain s df t y where
    f: "map_of files s = Some df" and t: "BIC_processing s All df = Inr t"
    and ys: "year_step dt s t y = Inr (Some e)"
    by blast
  from year_step_Some[OF ys] obtain r0 rest b where
    fr: "filter (\<lambda>r. p_Year r = y) (rows t) = r0 # rest"
    and b: "p_BID r0 = Some b"
    and len: "length (filter (\<lambda>r. b - int dt \<le> p_DOY r \<and> p_DOY r \<le> b + int dt) (r0 # rest))
              \<le> 2 * dt + 1"
    and sr: "snow_row e = boom_height dt (padded (2 * dt + 1)
               (filter (\<lambda>r. b - int dt \<le> p_DOY r \<and> p_DOY r \<le> b + int dt) (r0 # rest))
               p_Height_sensor_boom_m)"
    by (auto simp: Let_def)
  let ?w = "filter (\<lambda>r. b - int dt \<le> p_DOY r \<and> p_DOY r \<le> b + int dt)
              (filter (\<lambda>r. p_Year r = y) (rows t))"
  let ?h = "padded (2 * dt + 1) ?w p_Height_sensor_boom_m"
  from fr have "r0 \<in> set (filter (\<lambda>r. p_Year r = y) (rows t))" by simp
  with b have ex: "\<exists>r\<in>set (rows t). p_Year r = y \<and> p_BID r = Some b" by auto
  from len fr have lh: "length ?h = 2 * dt + 1" by (simp add: length_padded)
  from sr fr re have r1: "row = boom_height dt ?h" by simp
  then have r2: "row = map (\<lambda>v. vsub (nanmean (take 20 (drop (dt + 10) ?h))) v) ?h"
    by (simp add: boom_height_def Let_def)
  have r3: "if \<exists>v\<in>set (take 20 (drop (dt + 10) ?h)). v \<noteq> None
            then nanmean (take 20 (drop (dt + 10) row)) = Some 0
            else row = replicate (2 * dt + 1) None"
  proof (cases "\<exists>v\<in>set (take 20 (drop (dt + 10) ?h)). v \<noteq> None")
    case True
    from boom_height_mean_zero[OF True] True r1 show ?thesis by simp
  next
    case False
    then have "\<forall>v\<in>set (take 20 (drop (dt + 10) ?h)). v = None" by blast
    from boom_height_all_missing[OF this] False r1 lh show ?thesis by simp
  qed
  from f t ex lh r2 r3
  show "\<exists>s y df t b h.
             map_of files s = Some df \<and> BIC_processing s All df = Inr t \<and>
             (\<exists>r\<in>set (rows t). p_Year r = y \<and> p_BID r = Some b) \<and>
             h = padded (2 * dt + 1)
                   (filter (\<lambda>r. b - int dt \<le> p_DOY r \<and> p_DOY r \<le> b + int dt)
                      (filter (\<lambda>r. p_Year r = y) (rows t)))
                   p_Height_sensor_boom_m \<and>
             length h = 2 * dt + 1 \<and>
             row = map (\<lambda>v. vsub (nanmean (take 20 (drop (dt + 10) h))) v) h \<and>
             (if \<exists>v\<in>set (take 20 (drop (dt + 10) h)). v \<noteq> None
              then nanmean (take 20 (drop (dt + 10) row)) = Some 0
              else row = replicate (2 * dt + 1) None)"
    by blast
qed

text \<open>KPC\_L 2013 with a daily record from day 155 to day 175, bare ice day 165 and
  \<open>dt = 10\<close>: the slice is the last column, day 175.\<close>

theorem snow_height_rebaselined_witness:
  "BIC_composite
     [(''KPC_L'',
       \<lparr>Year = 2012, DayOfYear = 100, DepthPressureTransducer_Cor = Some 5,
         Albedo_theta_lt_70d = Some 0.8, AirTemperature = Some (-3), HeightSensorBoom = Some 2.5\<rparr>
       # map (\<lambda>d. \<lparr>Year = 2013, DayOfYear = d,
                    DepthPressureTransducer_Cor = Some (if d < 165 then 0 else -1),
                    Albedo_theta_lt_70d = Some 0.5, AirTemperature = Some 1,
                    HeightSensorBoom = Some (if d = 175 then 3 else 2)\<rparr>) [155..175])] 10
   = Inr \<lparr>row_index = [(''KPC_L'', 2013)], column_labels = [-10..10],
          air_temperature_degrees = [replicate 21 (Some 1)],
          ice_ablation_meters = [replicate 10 (Some 0) @ replicate 11 (Some (-1))],
          snow_height_meters = [replicate 20 (Some 1) @ [Some 0]],
          albedo_unitless = [replicate 21 (Some 0.534)]\<rparr>
   \<and> nanmean (take 20 (drop (10 + 10) (replicate 20 (Some 1) @ [Some 0]))) = Some 0"
proof -
  let ?files = "[(''KPC_L'',
       \<lparr>Year = 2012, DayOfYear = 100, DepthPressureTransducer_Cor = Some 5,
         Albedo_theta_lt_70d = Some 0.8, AirTemperature = Some (-3), HeightSensorBoom = Some 2.5\<rparr>
       # map (\<lambda>d. \<lparr>Year = 2013, DayOfYear = d,
                    DepthPressureTransducer_Cor = Some (if d < 165 then 0 else -1),
                    Albedo_theta_lt_70d = Some 0.5, AirTemperature = Some 1,
                    HeightSensorBoom = Some (if d = 175 then 3 else 2)\<rparr>) [155..175])]"
  let ?row = "replicate 20 (Some 1) @ [Some (0::real)]"
  let ?c = "\<lparr>row_index = [(''KPC_L'', 2013)], column_labels = [-10..10],
          air_temperature_degrees = [replicate 21 (Some 1)],
          ice_ablation_meters = [replicate 10 (Some 0) @ replicate 11 (Some (-1))],
          snow_height_meters = [?row],
          albedo_unitless = [replicate 21 (Some 0.534)]\<rparr>"
  have e: "BIC_composite ?files 10 = Inr ?c"
    by (simp add: BIC_composite_def site_step_def load_data_all_def BIC_processing_def
      year_frame_def year_step_def padded_def boom_height_def eval_nat_numeral
      DPT_eval corr_KPC_L_def)
  have "?row \<in> set (snow_height_meters ?c)" by simp
  with snow_height_rebaselined[OF e]
  have "nanmean (take 20 (drop (10 + 10) ?row)) = Some 0 \<or> ?row = replicate (2 * 10 + 1) None"
    by (auto split: if_splits)
  moreover have "?row \<noteq> replicate (2 * 10 + 1) None"
    by (simp add: eval_nat_numeral)
  ultimately have "nanmean (take 20 (drop (10 + 10) ?row)) = Some 0" by blast
  with e show ?thesis by blast
qed

text \<open>
  C6 as stated fails: day BID + 30 is not part of the slice. KPC\_L 2013 with a daily
  record from day 119 to day 209, bare ice day 164 and the default \<open>dt = 45\<close>; the boom
  height is 2 m on every day but day 194 = BID + 30, where it is 23 m. The reference mean
  is 2 and the transformed row has mean -1, not 0, over the columns labelled 10 to 30.
\<close>

theorem snow_height_mean_to_day_30_not_zero:
  "BIC_composite
     [(''KPC_L'',
       \<lparr>Year = 2012, DayOfYear = 100, DepthPressureTransducer_Cor = Some 5,
         Albedo_theta_lt_70d = Some 0.8, AirTemperature = Some (-3), HeightSensorBoom = Some 2.5\<rparr>
       # map (\<lambda>d. \<lparr>Year = 2013, DayOfYear = d,
                    DepthPressureTransducer_Cor = Some (if d < 164 then 0 else -1),
                    Albedo_theta_lt_70d = Some 0.5, AirTemperature = Some 1,
                    HeightSensorBoom = Some (if d = 194 then 23 else 2)\<rparr>) [119..209])] 45
   = Inr \<lparr>row_index = [(''KPC_L'', 2013)], column_labels = [-45..45],
          air_temperature_degrees = [replicate 91 (Some 1)],
          ice_ablation_meters = [replicate 45 (Some 0) @ replicate 46 (Some (-1))],
          snow_height_meters = [replicate 75 (Some 0) @ [Some (-21)] @ replicate 15 (Some 0)],
          albedo_unitless = [replicate 91 (Some 0.534)]\<rparr>
   \<and> nanmean (take 21 (drop (45 + 10)
                (replicate 75 (Some 0) @ [Some (-21)] @ replicate 15 (Some 0)))) = Some (-1)"
  by (simp add: BIC_composite_def site_step_def load_data_all_def BIC_processing_def
      year_frame_def year_step_def padded_def boom_height_def eval_nat_numeral
      DPT_eval corr_KPC_L_def)


section \<open>The boom height of the first processed year\<close>

lemma DPT_processing_lengths:
  assumes "DPT_processing s df y = Inr (zs, al, f, b, af)"
  shows "length zs = length df \<and> length al = length df"
proof -
  from assms have "zs = baseline (doy (table_state s df y)) (z (table_state s df y))
                          (if f \<noteq> 3 then None else IAO (table_state s df y))
                   \<and> al = albedo_series df (albedo_flag (table_state s df y))"
    by (auto simp: DPT_processing_def Let_def split: option.splits if_splits)
  then show ?thesis
    by (simp add: baseline_length table_state_length albedo_series_def Let_def)
qed

lemma year_frame_columns:
  assumes "DPT_processing s df_y y = Inr res"
  shows "map p_HeightSensorBoom_m (year_frame first df_y res)
           = (if first then map HeightSensorBoom df_y else replicate (length df_y) None)"
    and "map p_Height_sensor_boom_m (year_frame first df_y res)
           = (if first then replicate (length df_y) None else map HeightSensorBoom df_y)"
proof -
  obtain zs al f b af where res: "res = (zs, al, f, b, af)" by (cases res) auto
  from DPT_processing_lengths[OF assms[unfolded res]]
  have l: "length df_y = length (zip zs al)" by simp
  have fst: "map fst (zip df_y (zip zs al)) = df_y" using l by (rule map_fst_zip)
  have a: "map p_HeightSensorBoom_m (year_frame first df_y res)
           = map (\<lambda>r. if first then HeightSensorBoom r else None) (map fst (zip df_y (zip zs al)))"
    unfolding year_frame_def res by (simp add: case_prod_beta comp_def)
  have b: "map p_Height_sensor_boom_m (year_frame first df_y res)
           = map (\<lambda>r. if first then None else HeightSensorBoom r) (map fst (zip df_y (zip zs al)))"
    unfolding year_frame_def res by (simp add: case_prod_beta comp_def)
  show "map p_HeightSensorBoom_m (year_frame first df_y res)
           = (if first then map HeightSensorBoom df_y else replicate (length df_y) None)"
    unfolding a fst by (simp add: map_replicate_const)
  show "map p_Height_sensor_boom_m (year_frame first df_y res)
           = (if first then replicate (length df_y) None else map HeightSensorBoom df_y)"
    unfolding b fst by (simp add: map_replicate_const)
qed

lemma BIC_processing_frames:
  assumes "BIC_processing s yr df = Inr t"
    and "ys = (case yr of YearList l \<Rightarrow> l | _ \<Rightarrow> Counter_keys (map Year df))"
    and "distinct ys"
  shows "ys \<noteq> [] \<and> frames_inv s df (hd ys) ys t"
proof -
  from assms(1) have multi: "yr = All \<or> (case yr of YearList l \<Rightarrow> True | _ \<Rightarrow> False)"
    by (cases yr) (auto simp: BIC_processing_def)
  with assms(1,2) obtain res where p: "process_years s df 0 ys None = Inr res"
    by (cases "process_years s df 0 ys None") (auto simp: BIC_processing_def Let_def)
  with assms(1,2) multi have res: "res = Some t"
    by (cases res) (auto simp: BIC_processing_def Let_def)
  have ne: "ys \<noteq> []"
  proof
    assume "ys = []"
    with p res show False by simp
  qed
  have "\<exists>t'. res = Some t' \<and> frames_inv s df (hd ys) ([] @ ys) t'"
  proof (rule process_years_frames[OF p])
    show "distinct ([] @ ys)" using assms(3) by simp
    show "0 = length ([]::int list)" by simp
    show "hd ys = hd ([] @ ys)" by simp
    show "[] @ ys \<noteq> []" using ne by simp
  qed simp
  with res ne show ?thesis by simp
qed

lemma padded_all_missing:
  assumes "\<forall>r\<in>set w. col r = None" and "length w \<le> n"
  shows "padded n w col = replicate n None"
proof -
  from assms(1) have "map col w = replicate (length w) None"
    by (induction w) auto
  with assms(2) show ?thesis
    by (simp add: padded_def replicate_add[symmetric])
qed

lemma boom_height_replicate: "boom_height dt (replicate n None) = replicate n None"
  using boom_height_all_missing[of dt "replicate n None"]
  by (auto dest: in_set_takeD in_set_dropD)

text \<open>
  C9. When \<open>BIC_processing\<close> runs over several (distinct) years, the rows of the first
  processed year hold the boom height in the column \<open>HeightSensorBoom_m\<close> and nothing in
  \<open>Height_sensor_boom_m\<close>; the rows of every later year hold it in \<open>Height_sensor_boom_m\<close>
  and nothing in \<open>HeightSensorBoom_m\<close>. \<open>BIC_composite\<close> reads \<open>Height_sensor_boom_m\<close>
  only, so in a composite the snow-height row of a station's first processed year is
  entirely missing.
\<close>

theorem first_year_boom_height_lost:
  "(BIC_processing s yr df = Inr t \<longrightarrow>
      (let ys = (case yr of YearList l \<Rightarrow> l | _ \<Rightarrow> Counter_keys (map Year df))
       in distinct ys \<longrightarrow>
          (\<forall>y\<in>set ys.
             map p_HeightSensorBoom_m (filter (\<lambda>r. p_Year r = y) (rows t))
               = (if y = hd ys then map HeightSensorBoom (filter (\<lambda>r. Year r = y) df)
                  else replicate (length (filter (\<lambda>r. Year r = y) df)) None) \<and>
             map p_Height_sensor_boom_m (filter (\<lambda>r. p_Year r = y) (rows t))
               = (if y = hd ys then replicate (length (filter (\<lambda>r. Year r = y) df)) None
                  else map HeightSensorBoom (filter (\<lambda>r. Year r = y) df))))) \<and>
   (BIC_composite files dt = Inr c \<longrightarrow>
      (\<forall>(lbl, row)\<in>set (zip (row_index c) (snow_height_meters c)).
         \<forall>file_rows. map_of files (fst lbl) = Some file_rows \<longrightarrow>
            snd lbl = hd (Counter_keys (map Year file_rows)) \<longrightarrow>
            row = replicate (2 * dt + 1) None))"
proof (intro conjI impI)
  assume t: "BIC_processing s yr df = Inr t"
  show "let ys = (case yr of YearList l \<Rightarrow> l | _ \<Rightarrow> Counter_keys (map Year df))
       in distinct ys \<longrightarrow>
          (\<forall>y\<in>set ys.
             map p_HeightSensorBoom_m (filter (\<lambda>r. p_Year r = y) (rows t))
               = (if y = hd ys then map HeightSensorBoom (filter (\<lambda>r. Year r = y) df)
                  else replicate (length (filter (\<lambda>r. Year r = y) df)) None) \<and>
             map p_Height_sensor_boom_m (filter (\<lambda>r. p_Year r = y) (rows t))
               = (if y = hd ys then replicate (length (filter (\<lambda>r. Year r = y) df)) None
                  else map HeightSensorBoom (filter (\<lambda>r. Year r = y) df)))"
    unfolding Let_def
  proof (intro impI ballI)
    let ?ys = "case yr of YearList l \<Rightarrow> l | _ \<Rightarrow> Counter_keys (map Year df)"
    fix y
    assume d: "distinct ?ys" and y: "y \<in> set ?ys"
    from BIC_processing_frames[OF t refl d] have inv: "frames_inv s df (hd ?ys) ?ys t" by simp
    with y obtain res where
      r: "DPT_processing s (filter (\<lambda>r. Year r = y) df) y = Inr res"
      and f: "filter (\<lambda>r. p_Year r = y) (rows t)
               = year_frame (y = hd ?ys) (filter (\<lambda>r. Year r = y) df) res"
      unfolding frames_inv_def by blast
    show "map p_HeightSensorBoom_m (filter (\<lambda>r. p_Year r = y) (rows t))
               = (if y = hd ?ys then map HeightSensorBoom (filter (\<lambda>r. Year r = y) df)
                  else replicate (length (filter (\<lambda>r. Year r = y) df)) None) \<and>
             map p_Height_sensor_boom_m (filter (\<lambda>r. p_Year r = y) (rows t))
               = (if y = hd ?ys then replicate (length (filter (\<lambda>r. Year r = y) df)) None
                  else map HeightSensorBoom (filter (\<lambda>r. Year r = y) df))"
      unfolding f using year_frame_columns[OF r] by simp
  qed
next
  assume c: "BIC_composite files dt = Inr c"
  from BIC_composite_entries[OF c] obtain es where
    sl: "site_loop dt files (Counter_keys (map fst files)) = Inr es"
    and ri: "row_index c = map label es" and sn: "snow_height_meters c = map snow_row es"
    by blast
  have "row = replicate (2 * dt + 1) None"
    if m: "(lbl, row) \<in> set (zip (row_index c) (snow_height_meters c))"
      and f: "map_of files (fst lbl) = Some file_rows"
      and y0: "snd lbl = hd (Counter_keys (map Year file_rows))"
    for lbl row file_rows
  proof -
    from m have "(lbl, row) \<in> set (map (\<lambda>e. (label e, snow_row e)) es)"
      unfolding ri sn by (simp add: zip_map_map zip_same_conv_map)
    then obtain e where e: "e \<in> set es" and l: "lbl = label e" and r: "row = snow_row e"
      by auto
    from site_loop_entries[OF sl e] obtain s' df' t y where
      f': "map_of files s' = Some df'" and t: "BIC_processing s' All df' = Inr t"
      and ys: "year_step dt s' t y = Inr (Some e)"
      by blast
    from year_step_Some[OF ys] obtain r0 rest b where
      fr: "filter (\<lambda>r. p_Year r = y) (rows t) = r0 # rest"
      and le: "label e = (s', y)"
      and len: "length (filter (\<lambda>r. b - int dt \<le> p_DOY r \<and> p_DOY r \<le> b + int dt) (r0 # rest))
                \<le> 2 * dt + 1"
      and sr: "snow_row e = boom_height dt (padded (2 * dt + 1)
                 (filter (\<lambda>r. b - int dt \<le> p_DOY r \<and> p_DOY r \<le> b + int dt) (r0 # rest))
                 p_Height_sensor_boom_m)"
      by (auto simp: Let_def)
    from l le f f' have df: "df' = file_rows" by simp
    from l le y0 df have yy: "y = hd (Counter_keys (map Year df'))" by simp
    from BIC_processing_All_frames[OF t]
    have ne: "df' \<noteq> []" and inv: "frames_inv s' df' (Year (hd df')) (Counter_keys (map Year df')) t"
      by simp_all
    from ne yy have yh: "y = Year (hd df')" by (cases df') auto
    from ne yy have "y \<in> set (Counter_keys (map Year df'))" by (cases df') auto
    with inv obtain res where
      "filter (\<lambda>r. p_Year r = y) (rows t)
         = year_frame (y = Year (hd df')) (filter (\<lambda>r. Year r = y) df') res"
      unfolding frames_inv_def by blast
    with yh fr have fy: "r0 # rest = year_frame True (filter (\<lambda>r. Year r = y) df') res"
      by simp
    have "\<forall>r\<in>set (filter (\<lambda>r. b - int dt \<le> p_DOY r \<and> p_DOY r \<le> b + int dt) (r0 # rest)).
            p_Height_sensor_boom_m r = None"
      unfolding fy
      using year_frame_first_boom[of _ "filter (\<lambda>r. Year r = y) df'" res] by auto
    then have p: "padded (2 * dt + 1)
                 (filter (\<lambda>r. b - int dt \<le> p_DOY r \<and> p_DOY r \<le> b + int dt) (r0 # rest))
                 p_Height_sensor_boom_m = replicate (2 * dt + 1) None"
      using len by (rule padded_all_missing)
    show ?thesis unfolding r sr p by (rule boom_height_replicate)
  qed
  then show "\<forall>(lbl, row)\<in>set (zip (row_index c) (snow_height_meters c)).
         \<forall>file_rows. map_of files (fst lbl) = Some file_rows \<longrightarrow>
            snd lbl = hd (Counter_keys (map Year file_rows)) \<longrightarrow>
            row = replicate (2 * dt + 1) None"
    by blast
qed

text \<open>KPC\_L with 2013 and 2014, both rated 3 and both in the composite.\<close>

theorem first_year_boom_height_lost_witness:
  "(\<exists>t. BIC_processing ''KPC_L'' All
          [\<lparr>Year = 2013, DayOfYear = 160, DepthPressureTransducer_Cor = Some 3,
            Albedo_theta_lt_70d = Some 0.8, AirTemperature = Some 1, HeightSensorBoom = Some 2.6\<rparr>,
           \<lparr>Year = 2013, DayOfYear = 165, DepthPressureTransducer_Cor = Some 2,
            Albedo_theta_lt_70d = Some 0.6, AirTemperature = Some 2, HeightSensorBoom = Some 2.4\<rparr>,
           \<lparr>Year = 2014, DayOfYear = 160, DepthPressureTransducer_Cor = Some 3,
            Albedo_theta_lt_70d = Some 0.8, AirTemperature = Some 1, HeightSensorBoom = Some 2.7\<rparr>,
           \<lparr>Year = 2014, DayOfYear = 166, DepthPressureTransducer_Cor = Some 2,
            Albedo_theta_lt_70d = Some 0.6, AirTemperature = Some 2, HeightSensorBoom = Some 2.8\<rparr>]
        = Inr t \<and>
        map p_HeightSensorBoom_m (filter (\<lambda>r. p_Year r = 2013) (rows t)) = [Some 2.6, Some 2.4] \<and>
        map p_Height_sensor_boom_m (filter (\<lambda>r. p_Year r = 2013) (rows t)) = [None, None] \<and>
        map p_HeightSensorBoom_m (filter (\<lambda>r. p_Year r = 2014) (rows t)) = [None, None] \<and>
        map p_Height_sensor_boom_m (filter (\<lambda>r. p_Year r = 2014) (rows t)) = [Some 2.7, Some 2.8])
   \<and> BIC_composite
       [(''KPC_L'',
          [\<lparr>Year = 2013, DayOfYear = 160, DepthPressureTransducer_Cor = Some 3,
            Albedo_theta_lt_70d = Some 0.8, AirTemperature = Some 1, HeightSensorBoom = Some 2.6\<rparr>,
           \<lparr>Year = 2013, DayOfYear = 165, DepthPressureTransducer_Cor = Some 2,
            Albedo_theta_lt_70d = Some 0.6, AirTemperature = Some 2, HeightSensorBoom = Some 2.4\<rparr>,
           \<lparr>Year = 2014, DayOfYear = 160, DepthPressureTransducer_Cor = Some 3,
            Albedo_theta_lt_70d = Some 0.8, AirTemperature = Some 1, HeightSensorBoom = Some 2.7\<rparr>,
           \<lparr>Year = 2014, DayOfYear = 166, DepthPressureTransducer_Cor = Some 2,
            Albedo_theta_lt_70d = Some 0.6, AirTemperature = Some 2, HeightSensorBoom = Some 2.8\<rparr>])] 1
     = Inr \<lparr>row_index = [(''KPC_L'', 2013), (''KPC_L'', 2014)], column_labels = [-1, 0, 1],
            air_temperature_degrees = [[Some 2, None, None], [Some 2, None, None]],
            ice_ablation_meters = [[Some (-1), None, None], [Some (-1), None, None]],
            snow_height_meters = [[None, None, None], [None, None, None]],
            albedo_unitless = [[Some 0.634, None, None], [Some 0.634, None, None]]\<rparr>"
proof -
  let ?rows = "[\<lparr>Year = 2013, DayOfYear = 160, DepthPressureTransducer_Cor = Some 3,
            Albedo_theta_lt_70d = Some 0.8, AirTemperature = Some 1, HeightSensorBoom = Some 2.6\<rparr>,
           \<lparr>Year = 2013, DayOfYear = 165, DepthPressureTransducer_Cor = Some 2,
            Albedo_theta_lt_70d = Some 0.6, AirTemperature = Some 2, HeightSensorBoom = Some 2.4\<rparr>,
           \<lparr>Year = 2014, DayOfYear = 160, DepthPressureTransducer_Cor = Some 3,
            Albedo_theta_lt_70d = Some 0.8, AirTemperature = Some 1, HeightSensorBoom = Some 2.7\<rparr>,
           \<lparr>Year = 2014, DayOfYear = 166, DepthPressureTransducer_Cor = Some 2,
            Albedo_theta_lt_70d = Some 0.6, AirTemperature = Some 2, HeightSensorBoom = Some 2.8\<rparr>]"
  let ?row = "snd (hd (zip [(''KPC_L'', 2013::int), (''KPC_L'', 2014)] [[None, None, None], [None, None, None::val]]))"
  have "\<exists>t. BIC_processing ''KPC_L'' All ?rows = Inr t"
    by (simp add: BIC_processing_def year_frame_def DPT_eval corr_KPC_L_def)
  then obtain t where t: "BIC_processing ''KPC_L'' All ?rows = Inr t" by blast
  have ys: "Counter_keys (map Year ?rows) = [2013, 2014]" by simp
  obtain x where x: "BIC_composite [(''KPC_L'', ?rows)] 1 = x" by blast
  have e: "x = Inr \<lparr>row_index = [(''KPC_L'', 2013), (''KPC_L'', 2014)], column_labels = [-1, 0, 1],
            air_temperature_degrees = [[Some 2, None, None], [Some 2, None, None]],
            ice_ablation_meters = [[Some (-1), None, None], [Some (-1), None, None]],
            snow_height_meters = [[None, None, None], [None, None, None]],
            albedo_unitless = [[Some 0.634, None, None], [Some 0.634, None, None]]\<rparr>"
    unfolding x[symmetric] by (simp add: composite_eval DPT_eval corr_KPC_L_def)
  let ?c = "\<lparr>row_index = [(''KPC_L'', 2013), (''KPC_L'', 2014)], column_labels = [-1, 0, 1],
            air_temperature_degrees = [[Some 2, None, None], [Some 2, None, None]],
            ice_ablation_meters = [[Some (-1), None, None], [Some (-1), None, None]],
            snow_height_meters = [[None, None, None], [None, None, None]],
            albedo_unitless = [[Some 0.634, None, None], [Some 0.634, None, None]]\<rparr>"
  note th = first_year_boom_height_lost[of "''KPC_L''" All ?rows t "[(''KPC_L'', ?rows)]" 1 ?c]
  from th t ys
  have cols: "\<forall>y\<in>set [2013, 2014].
             map p_HeightSensorBoom_m (filter (\<lambda>r. p_Year r = y) (rows t))
               = (if y = 2013 then map HeightSensorBoom (filter (\<lambda>r. Year r = y) ?rows)
                  else replicate (length (filter (\<lambda>r. Year r = y) ?rows)) None) \<and>
             map p_Height_sensor_boom_m (filter (\<lambda>r. p_Year r = y) (rows t))
               = (if y = 2013 then replicate (length (filter (\<lambda>r. Year r = y) ?rows)) None
                  else map HeightSensorBoom (filter (\<lambda>r. Year r = y) ?rows))"
    by (simp add: Let_def)
  then have cols':
    "map p_HeightSensorBoom_m (filter (\<lambda>r. p_Year r = 2013) (rows t)) = [Some 2.6, Some 2.4] \<and>
     map p_Height_sensor_boom_m (filter (\<lambda>r. p_Year r = 2013) (rows t)) = [None, None] \<and>
     map p_HeightSensorBoom_m (filter (\<lambda>r. p_Year r = 2014) (rows t)) = [None, None] \<and>
     map p_Height_sensor_boom_m (filter (\<lambda>r. p_Year r = 2014) (rows t)) = [Some 2.7, Some 2.8]"
    by (simp add: eval_nat_numeral)
  have m: "((''KPC_L'', 2013), [None, None, None])
             \<in> set (zip (row_index ?c) (snow_height_meters ?c))" by simp
  have f: "map_of [(''KPC_L'', ?rows)] (fst (''KPC_L'', 2013::int)) = Some ?rows" by simp
  have h: "snd (''KPC_L'', 2013::int) = hd (Counter_keys (map Year ?rows))" by simp
  from bspec[OF mp[OF conjunct2[OF th] e[unfolded x[symmetric]]] m] f h
  have r: "[None, None, None] = replicate (2 * 1 + 1) (None::val)" by simp
  from t cols' have A: "\<exists>t. BIC_processing ''KPC_L'' All ?rows = Inr t \<and>
        map p_HeightSensorBoom_m (filter (\<lambda>r. p_Year r = 2013) (rows t)) = [Some 2.6, Some 2.4] \<and>
        map p_Height_sensor_boom_m (filter (\<lambda>r. p_Year r = 2013) (rows t)) = [None, None] \<and>
        map p_HeightSensorBoom_m (filter (\<lambda>r. p_Year r = 2014) (rows t)) = [None, None] \<and>
        map p_Height_sensor_boom_m (filter (\<lambda>r. p_Year r = 2014) (rows t)) = [Some 2.7, Some 2.8]"
    by (intro exI[of _ t] conjI) simp_all
  from r A e[unfolded x[symmetric]] show ?thesis by simp
qed

text \<open>A station whose file holds one year only never gets the column
  \<open>Height_sensor_boom_m\<close>: when that year qualifies, reading the column raises.\<close>

lemma single_year_station_raises:
  "BIC_composite
     [(''KPC_L'',
       [\<lparr>Year = 2013, DayOfYear = 160, DepthPressureTransducer_Cor = Some 3,
         Albedo_theta_lt_70d = Some 0.8, AirTemperature = Some 1, HeightSensorBoom = Some 2.6\<rparr>,
        \<lparr>Year = 2013, DayOfYear = 165, DepthPressureTransducer_Cor = Some 2,
         Albedo_theta_lt_70d = Some 0.6, AirTemperature = Some 2, HeightSensorBoom = Some 2.4\<rparr>])] 1
   = Inl AttributeError"
  by (simp add: composite_eval DPT_eval corr_KPC_L_def)

end
